theory Spec2Isabelle
  imports Complex_Main "HOL-Library.Multiset"
begin

section \<open>Strings\<close>

text \<open>
  A JavaScript string is a sequence of UTF-16 code units. The model uses HOL's
  \<open>string\<close>, whose characters are the code units U+0000 .. U+00FF (Latin-1); text
  with code units beyond U+00FF is outside the model. \<open>trim\<close> and
  \<open>toLowerCase\<close> are the built-ins of the language restricted to that range.
\<close>

definition isWhiteSpace :: "char \<Rightarrow> bool" where
  "isWhiteSpace c \<longleftrightarrow>
     c = CHR 0x09 \<or> c = CHR 0x0A \<or> c = CHR 0x0B \<or> c = CHR 0x0C \<or> c = CHR 0x0D
     \<or> c = CHR 0x20 \<or> c = CHR 0xA0"

definition trimStart :: "string \<Rightarrow> string" where
  "trimStart s = dropWhile isWhiteSpace s"

definition trim :: "string \<Rightarrow> string" where
  "trim s = rev (dropWhile isWhiteSpace (rev (dropWhile isWhiteSpace s)))"

definition lowerChar :: "char \<Rightarrow> char" where
  "lowerChar c =
     (let n = (of_char c :: int) in
      if (65 \<le> n \<and> n \<le> 90) \<or> (192 \<le> n \<and> n \<le> 222 \<and> n \<noteq> 215)
      then char_of (n + 32) else c)"

definition toLowerCase :: "string \<Rightarrow> string" where
  "toLowerCase s = map lowerChar s"

fun startsWith :: "string \<Rightarrow> string \<Rightarrow> bool" where
  "startsWith s [] = True"
| "startsWith [] (p # ps) = False"
| "startsWith (c # cs) (p # ps) = (c = p \<and> startsWith cs ps)"

text \<open>\<open>s.includes(p)\<close>: \<open>p\<close> occurs in \<open>s\<close> as a contiguous substring.\<close>

fun includes_str :: "string \<Rightarrow> string \<Rightarrow> bool" where
  "includes_str [] p = (p = [])"
| "includes_str (c # cs) p = (startsWith (c # cs) p \<or> includes_str cs p)"

text \<open>\<open>s.split('\n')\<close>: never empty; a trailing newline gives a last empty piece.\<close>

fun split_newline :: "string \<Rightarrow> string list" where
  "split_newline [] = [[]]"
| "split_newline (c # cs) =
     (if c = CHR 0x0A then [] # split_newline cs
      else (case split_newline cs of
              [] \<Rightarrow> [[c]]
            | l # ls \<Rightarrow> (c # l) # ls))"

section \<open>Field tokenizer: \<open>parseCSVLine\<close>\<close>

text \<open>
  The loop of \<open>parseCSVLine\<close> over the index \<open>i\<close>, as a recursion over the
  characters still to read, with the loop's variables \<open>result\<close>, \<open>current\<close>
  and \<open>inQuotes\<close>. The second equation is the iteration where \<open>nextChar\<close>
  exists; the third is the last character of the line (\<open>nextChar\<close> undefined).
\<close>

fun parseCSVLine_loop ::
  "string \<Rightarrow> string list \<Rightarrow> string \<Rightarrow> bool \<Rightarrow> string list" where
  "parseCSVLine_loop [] result current inQuotes = result @ [trim current]"
| "parseCSVLine_loop (c # nextChar # rest) result current inQuotes =
     (if c = CHR 0x22 then
        (if inQuotes \<and> nextChar = CHR 0x22
         then parseCSVLine_loop rest result (current @ [CHR 0x22]) inQuotes
         else parseCSVLine_loop (nextChar # rest) result current (\<not> inQuotes))
      else if c = CHR '','' \<and> \<not> inQuotes
        then parseCSVLine_loop (nextChar # rest) (result @ [trim current]) [] inQuotes
      else parseCSVLine_loop (nextChar # rest) result (current @ [c]) inQuotes)"
| "parseCSVLine_loop [c] result current inQuotes =
     (if c = CHR 0x22 then parseCSVLine_loop [] result current (\<not> inQuotes)
      else if c = CHR '','' \<and> \<not> inQuotes
        then parseCSVLine_loop [] (result @ [trim current]) [] inQuotes
      else parseCSVLine_loop [] result (current @ [c]) inQuotes)"

definition parseCSVLine :: "string \<Rightarrow> string list" where
  "parseCSVLine line = parseCSVLine_loop line [] [] False"

text \<open>
  The reference CSV writer of the round-trip property: a field is wrapped in double
  quotes and every embedded double quote is doubled.
\<close>

fun doubleQuotes :: "string \<Rightarrow> string" where
  "doubleQuotes [] = []"
| "doubleQuotes (c # cs) =
     (if c = CHR 0x22 then CHR 0x22 # CHR 0x22 # doubleQuotes cs else c # doubleQuotes cs)"

definition writeField :: "string \<Rightarrow> string" where
  "writeField f = CHR 0x22 # doubleQuotes f @ [CHR 0x22]"

section \<open>Header resolver: \<open>findColumnIndex\<close>\<close>

text \<open>\<open>headers.indexOf(header)\<close>: the first index holding an equal string, or -1.\<close>

fun indexOf :: "string list \<Rightarrow> string \<Rightarrow> int" where
  "indexOf [] x = -1"
| "indexOf (h # hs) x = (if h = x then 0 else (let i = indexOf hs x in if i < 0 then -1 else i + 1))"

definition matchesAny :: "string \<Rightarrow> string list \<Rightarrow> bool" where
  "matchesAny header patterns =
     list_ex (\<lambda>pattern. includes_str (trim (toLowerCase header)) (toLowerCase pattern)) patterns"

text \<open>The outer loop runs over the headers, the inner one over the patterns.\<close>

fun findColumnIndex_loop :: "string list \<Rightarrow> string list \<Rightarrow> string list \<Rightarrow> int" where
  "findColumnIndex_loop headers [] patterns = -1"
| "findColumnIndex_loop headers (header # rest) patterns =
     (if matchesAny header patterns then indexOf headers header
      else findColumnIndex_loop headers rest patterns)"

definition findColumnIndex :: "string list \<Rightarrow> string list \<Rightarrow> int" where
  "findColumnIndex headers patterns = findColumnIndex_loop headers headers patterns"

text \<open>\<open>headers.findIndex(pred)\<close>: the first index whose element satisfies \<open>pred\<close>, or -1.\<close>

fun findIndex :: "(string \<Rightarrow> bool) \<Rightarrow> string list \<Rightarrow> int" where
  "findIndex pred [] = -1"
| "findIndex pred (h # hs) =
     (if pred h then 0 else (let i = findIndex pred hs in if i < 0 then -1 else i + 1))"

definition datePatterns :: "string list" where
  "datePatterns = [''date'', ''transaction date'', ''posted'', ''posted date'']"

definition amountPatterns :: "string list" where
  "amountPatterns = [''amount'']"

definition descPatterns :: "string list" where
  "descPatterns = [''description'', ''name'', ''merchant'', ''payee'', ''details'']"

definition typePatterns :: "string list" where
  "typePatterns = [''type of transaction'', ''trans type'', ''transaction type'', ''type'',
     ''debit/credit'', ''dr/cr'']"

text \<open>The column map of \<open>parseCSV\<close>: the four indices computed from the header row.\<close>

record Columns =
  dateColIndex :: int
  amountColIndex :: int
  descColIndex :: int
  actualTypeColIndex :: int

definition resolveType :: "string list \<Rightarrow> int" where
  "resolveType headers =
     (let typeColIndex = findColumnIndex headers typePatterns in
      if typeColIndex = -1
      then findIndex (\<lambda>h. trim (toLowerCase h) = ''transaction'') headers
      else typeColIndex)"

definition resolveColumns :: "string list \<Rightarrow> Columns" where
  "resolveColumns headers =
     \<lparr> dateColIndex = findColumnIndex headers datePatterns,
       amountColIndex = findColumnIndex headers amountPatterns,
       descColIndex = findColumnIndex headers descPatterns,
       actualTypeColIndex = resolveType headers \<rparr>"

section \<open>Numbers\<close>

text \<open>
  A Number value is NaN, an infinity or a finite value, held as the rational it
  denotes (negative zero is not distinguished from zero: the program takes the absolute
  value of every amount before using it). Arithmetic on finite values computes the
  exact result and rounds it to a Number with the host's rounding \<open>rnd\<close>, a
  parameter of the model; \<open>Fin\<close> itself is arithmetic without rounding error.
\<close>

datatype number = NaN | NegInf | Fin rat | PosInf

definition isNaN :: "number \<Rightarrow> bool" where
  "isNaN x \<longleftrightarrow> x = NaN"

fun Math_abs :: "number \<Rightarrow> number" where
  "Math_abs NaN = NaN"
| "Math_abs NegInf = PosInf"
| "Math_abs PosInf = PosInf"
| "Math_abs (Fin q) = Fin \<bar>q\<bar>"

fun num_add :: "(rat \<Rightarrow> number) \<Rightarrow> number \<Rightarrow> number \<Rightarrow> number" where
  "num_add rnd (Fin a) (Fin b) = rnd (a + b)"
| "num_add rnd NaN y = NaN"
| "num_add rnd x NaN = NaN"
| "num_add rnd PosInf NegInf = NaN"
| "num_add rnd NegInf PosInf = NaN"
| "num_add rnd PosInf y = PosInf"
| "num_add rnd x PosInf = PosInf"
| "num_add rnd NegInf y = NegInf"
| "num_add rnd x NegInf = NegInf"

text \<open>\<open>x * c\<close> and \<open>x / c\<close> for a finite constant \<open>c > 0\<close> (the program uses 100).\<close>

fun num_times :: "(rat \<Rightarrow> number) \<Rightarrow> number \<Rightarrow> rat \<Rightarrow> number" where
  "num_times rnd (Fin q) c = rnd (q * c)"
| "num_times rnd x c = x"

fun num_divide :: "(rat \<Rightarrow> number) \<Rightarrow> number \<Rightarrow> rat \<Rightarrow> number" where
  "num_divide rnd (Fin q) c = rnd (q / c)"
| "num_divide rnd x c = x"

text \<open>\<open>Math.round\<close>: the nearest integer, a tie going up. The result is exact.\<close>

fun Math_round :: "number \<Rightarrow> number" where
  "Math_round (Fin q) = Fin (of_int \<lfloor>q + 1 / 2\<rfloor>)"
| "Math_round x = x"

text \<open>\<open>v || 0\<close> for a Number or undefined \<open>v\<close>: undefined, 0 and NaN are falsy.\<close>

fun orZero :: "number option \<Rightarrow> number" where
  "orZero None = Fin 0"
| "orZero (Some v) = (if v = Fin 0 \<or> v = NaN then Fin 0 else v)"

definition isDigit :: "char \<Rightarrow> bool" where
  "isDigit c \<longleftrightarrow> 48 \<le> (of_char c :: int) \<and> (of_char c :: int) \<le> 57"

definition digitVal :: "char \<Rightarrow> int" where
  "digitVal c = of_char c - 48"

definition digitsVal :: "string \<Rightarrow> int" where
  "digitsVal ds = foldl (\<lambda>acc c. 10 * acc + digitVal c) 0 ds"

definition pow10 :: "int \<Rightarrow> rat" where
  "pow10 e = (if 0 \<le> e then 10 ^ nat e else 1 / 10 ^ nat (- e))"

text \<open>An optional sign at the head of a string: whether it is \<open>-\<close>, and the rest.\<close>

fun takeSign :: "string \<Rightarrow> bool \<times> string" where
  "takeSign [] = (False, [])"
| "takeSign (c # r) =
     (if c = CHR ''-'' then (True, r) else if c = CHR ''+'' then (False, r) else (False, c # r))"

text \<open>The value of an ExponentPart at the head of a string; 0 when there is none.\<close>

fun parseExponent :: "string \<Rightarrow> int" where
  "parseExponent [] = 0"
| "parseExponent (e # r) =
     (if e = CHR ''e'' \<or> e = CHR ''E'' then
        (let ds = takeWhile isDigit (snd (takeSign r)) in
         if ds = [] then 0
         else if fst (takeSign r) then - digitsVal ds else digitsVal ds)
      else 0)"

text \<open>
  \<open>parseFloat\<close>: leading white space is skipped, then the longest prefix that is a
  decimal literal (a sign, \<open>Infinity\<close>, or digits with an optional fraction and
  exponent) is read; NaN when there is none.
\<close>

definition parseFloat :: "(rat \<Rightarrow> number) \<Rightarrow> string \<Rightarrow> number" where
  "parseFloat rnd s =
     (let neg = fst (takeSign (trimStart s));
          u = snd (takeSign (trimStart s))
      in if startsWith u ''Infinity'' then (if neg then NegInf else PosInf)
         else
           (let ip = takeWhile isDigit u;
                r1 = dropWhile isDigit u;
                hasDot = (case r1 of [] \<Rightarrow> False | c # _ \<Rightarrow> c = CHR ''.'');
                fp = (if hasDot then takeWhile isDigit (tl r1) else []);
                r2 = (if hasDot then dropWhile isDigit (tl r1) else r1)
            in if ip = [] \<and> fp = [] then NaN
               else
                 (let m = of_int (digitsVal ip) + of_int (digitsVal fp) / 10 ^ length fp;
                      v = m * pow10 (parseExponent r2)
                  in rnd (if neg then - v else v))))"

text \<open>\<open>amountStr.replace(/[$,]/g, '')\<close>\<close>

definition removeDollarComma :: "string \<Rightarrow> string" where
  "removeDollarComma s = filter (\<lambda>c. c \<noteq> CHR ''$'' \<and> c \<noteq> CHR '','') s"

text \<open>
  Decimal digits of an integer, as \<open>String(n)\<close> and template literals print it;
  \<open>showNat\<close> is for an integer that is not negative.
\<close>

function showNat :: "int \<Rightarrow> string" where
  "showNat n =
     (if n < 10 then [char_of (48 + n)]
      else showNat (n div 10) @ [char_of (48 + n mod 10)])"
  by pat_completeness auto
termination
  by (relation "measure nat") auto

declare showNat.simps [simp del]

definition showInt :: "int \<Rightarrow> string" where
  "showInt i = (if i < 0 then CHR ''-'' # showNat (- i) else showNat i)"

text \<open>\<open>s.padStart(n, '0')\<close>\<close>

definition padStart0 :: "nat \<Rightarrow> string \<Rightarrow> string" where
  "padStart0 n s = replicate (n - length s) (CHR ''0'') @ s"

section \<open>Dates\<close>

text \<open>
  A Date object holds a time value: milliseconds since 1970-01-01T00:00:00Z, or NaN
  for an Invalid Date (\<open>None\<close>). The functions below are the abstract operations
  of the same names of the language standard; the calendar is the proleptic
  Gregorian one, with day 0 on 1970-01-01. Months are counted from 0, as
  \<open>getMonth\<close> does.
\<close>

type_synonym Date = "int option"

datatype error = RangeError

definition msPerDay :: int where
  "msPerDay = 86400000"

definition Day :: "int \<Rightarrow> int" where
  "Day t = t div msPerDay"

definition TimeWithinDay :: "int \<Rightarrow> int" where
  "TimeWithinDay t = t mod msPerDay"

definition WeekDay :: "int \<Rightarrow> int" where
  "WeekDay t = (Day t + 4) mod 7"

text \<open>Year, month (0..11) and day of the month (1..31) of a day number.\<close>

definition civilFromDays :: "int \<Rightarrow> int \<times> int \<times> int" where
  "civilFromDays n =
     (let z = n + 719468;
          era = z div 146097;
          doe = z mod 146097;
          yoe = (doe - doe div 1460 + doe div 36524 - doe div 146096) div 365;
          doy = doe - (365 * yoe + yoe div 4 - yoe div 100);
          mp = (5 * doy + 2) div 153;
          d = doy - (153 * mp + 2) div 5 + 1;
          m = (if mp < 10 then mp + 3 else mp - 9);
          y = yoe + era * 400 + (if m \<le> 2 then 1 else 0)
      in (y, m - 1, d))"

text \<open>The day number of the first day of month \<open>m\<close> (0..11) of year \<open>y\<close>.\<close>

definition daysFromCivil :: "int \<Rightarrow> int \<Rightarrow> int" where
  "daysFromCivil y m =
     (let y' = (if m \<le> 1 then y - 1 else y);
          era = y' div 400;
          yoe = y' mod 400;
          mp = (if m > 1 then m - 2 else m + 10);
          doy = (153 * mp + 2) div 5;
          doe = yoe * 365 + yoe div 4 - yoe div 100 + doy
      in era * 146097 + doe - 719468)"

definition YearFromTime :: "int \<Rightarrow> int" where
  "YearFromTime t = fst (civilFromDays (Day t))"

definition MonthFromTime :: "int \<Rightarrow> int" where
  "MonthFromTime t = fst (snd (civilFromDays (Day t)))"

definition DateFromTime :: "int \<Rightarrow> int" where
  "DateFromTime t = snd (snd (civilFromDays (Day t)))"

definition HourFromTime :: "int \<Rightarrow> int" where
  "HourFromTime t = (t div 3600000) mod 24"

definition MinFromTime :: "int \<Rightarrow> int" where
  "MinFromTime t = (t div 60000) mod 60"

definition SecFromTime :: "int \<Rightarrow> int" where
  "SecFromTime t = (t div 1000) mod 60"

definition msFromTime :: "int \<Rightarrow> int" where
  "msFromTime t = t mod 1000"

definition MakeDay :: "int \<Rightarrow> int \<Rightarrow> int \<Rightarrow> int" where
  "MakeDay year month dt = daysFromCivil (year + month div 12) (month mod 12) + dt - 1"

definition MakeDate :: "int \<Rightarrow> int \<Rightarrow> int" where
  "MakeDate day time = day * msPerDay + time"

definition TimeClip :: "int \<Rightarrow> Date" where
  "TimeClip t = (if \<bar>t\<bar> \<le> 8640000000000000 then Some t else None)"

definition isLeapYear :: "int \<Rightarrow> bool" where
  "isLeapYear y \<longleftrightarrow> y mod 4 = 0 \<and> (y mod 100 \<noteq> 0 \<or> y mod 400 = 0)"

text \<open>The number of days of month \<open>m\<close> (1..12) of year \<open>y\<close>.\<close>

definition DaysInMonth :: "int \<Rightarrow> int \<Rightarrow> int" where
  "DaysInMonth y m =
     (if m = 2 then (if isLeapYear y then 29 else 28)
      else if m = 4 \<or> m = 6 \<or> m = 9 \<or> m = 11 then 30 else 31)"

subsection \<open>The host\<close>

text \<open>
  What the program takes from the machine it runs on:
  \<^item> \<open>roundNumber\<close>: the rounding of an exact arithmetic result to a Number;
  \<^item> \<open>tzOffset\<close>: the offset of local time from UTC in milliseconds (positive east
    of Greenwich), taken as fixed: a zone without daylight saving;
  \<^item> \<open>now\<close>: the time value \<open>new Date()\<close> reads from the clock;
  \<^item> \<open>hostDateParse\<close>: \<open>Date.parse\<close> on every string that is not a
    date-only form of the standard's date-time format: the standard leaves it to the
    implementation.
\<close>

record host =
  roundNumber :: "rat \<Rightarrow> number"
  tzOffset :: int
  now :: int
  hostDateParse :: "string \<Rightarrow> int option"

definition LocalTime :: "host \<Rightarrow> int \<Rightarrow> int" where
  "LocalTime h t = t + tzOffset h"

definition UTC :: "host \<Rightarrow> int \<Rightarrow> int" where
  "UTC h t = t - tzOffset h"

subsection \<open>\<open>new Date(string)\<close>\<close>

text \<open>
  The date-only forms \<open>YYYY-MM-DD\<close> and \<open>\<plusminus>YYYYYY-MM-DD\<close> of the
  date-time string format, which the standard reads as UTC midnight of that day.
  A month or day out of range, or the year \<open>-000000\<close>, is not an instance of the
  format. The result is year, month (1..12) and day.
\<close>

definition isoDateOnly :: "string \<Rightarrow> (int \<times> int \<times> int) option" where
  "isoDateOnly s =
     (let signed = (case s of [] \<Rightarrow> False | c # _ \<Rightarrow> c = CHR ''+'' \<or> c = CHR ''-'');
          neg = (case s of [] \<Rightarrow> False | c # _ \<Rightarrow> c = CHR ''-'');
          body = (if signed then tl s else s);
          yl = (if signed then 6 else 4);
          ys = take yl body;
          r = drop yl body
      in if length body = yl + 6 \<and> list_all isDigit ys
            \<and> r ! 0 = CHR ''-'' \<and> isDigit (r ! 1) \<and> isDigit (r ! 2)
            \<and> r ! 3 = CHR ''-'' \<and> isDigit (r ! 4) \<and> isDigit (r ! 5)
         then
           (let y = (if neg then - digitsVal ys else digitsVal ys);
                m = digitsVal (take 2 (drop 1 r));
                d = digitsVal (drop 4 r)
            in if (neg \<and> y = 0) \<or> m < 1 \<or> 12 < m \<or> d < 1 \<or> DaysInMonth y m < d then None
               else Some (y, m, d))
         else None)"

definition newDate :: "host \<Rightarrow> string \<Rightarrow> Date" where
  "newDate h s =
     (case isoDateOnly s of
        Some (y, m, d) \<Rightarrow> TimeClip (MakeDate (MakeDay y (m - 1) d) 0)
      | None \<Rightarrow> (case hostDateParse h s of None \<Rightarrow> None | Some t \<Rightarrow> TimeClip t))"

subsection \<open>Methods of Date\<close>

text \<open>A Number that holds an integer or NaN (\<open>None\<close>).\<close>

type_synonym intOrNaN = "int option"

definition getTime :: "Date \<Rightarrow> intOrNaN" where
  "getTime d = d"

definition getDay :: "host \<Rightarrow> Date \<Rightarrow> intOrNaN" where
  "getDay h d = map_option (\<lambda>t. WeekDay (LocalTime h t)) d"

definition getDate :: "host \<Rightarrow> Date \<Rightarrow> intOrNaN" where
  "getDate h d = map_option (\<lambda>t. DateFromTime (LocalTime h t)) d"

definition getUTCFullYear :: "Date \<Rightarrow> intOrNaN" where
  "getUTCFullYear d = map_option YearFromTime d"

definition getUTCMonth :: "Date \<Rightarrow> intOrNaN" where
  "getUTCMonth d = map_option MonthFromTime d"

definition getUTCDate :: "Date \<Rightarrow> intOrNaN" where
  "getUTCDate d = map_option DateFromTime d"

text \<open>\<open>d.setDate(dt)\<close>: the new time value, which is also what the call returns.\<close>

definition setDate :: "host \<Rightarrow> Date \<Rightarrow> intOrNaN \<Rightarrow> Date" where
  "setDate h d dt =
     (case d of
        None \<Rightarrow> None
      | Some u \<Rightarrow>
          (case dt of
             None \<Rightarrow> None
           | Some n \<Rightarrow>
               (let t = LocalTime h u;
                    newDate = MakeDate (MakeDay (YearFromTime t) (MonthFromTime t) n) (TimeWithinDay t)
                in TimeClip (UTC h newDate))))"

text \<open>\<open>String(n)\<close> of an integer or NaN.\<close>

definition showNumber :: "intOrNaN \<Rightarrow> string" where
  "showNumber n = (case n of None \<Rightarrow> ''NaN'' | Some i \<Rightarrow> showInt i)"

definition isoYear :: "int \<Rightarrow> string" where
  "isoYear y =
     (if 0 \<le> y \<and> y \<le> 9999 then padStart0 4 (showNat y)
      else (if y < 0 then CHR ''-'' else CHR ''+'') # padStart0 6 (showNat \<bar>y\<bar>))"

definition isoString :: "int \<Rightarrow> string" where
  "isoString t =
     isoYear (YearFromTime t) @ ''-'' @ padStart0 2 (showInt (MonthFromTime t + 1)) @ ''-''
       @ padStart0 2 (showInt (DateFromTime t)) @ ''T''
       @ padStart0 2 (showInt (HourFromTime t)) @ '':'' @ padStart0 2 (showInt (MinFromTime t))
       @ '':'' @ padStart0 2 (showInt (SecFromTime t)) @ ''.''
       @ padStart0 3 (showInt (msFromTime t)) @ ''Z''"

text \<open>\<open>toISOString\<close> throws a RangeError on an Invalid Date.\<close>

definition toISOString :: "Date \<Rightarrow> error + string" where
  "toISOString d = (case d of None \<Rightarrow> Inl RangeError | Some t \<Rightarrow> Inr (isoString t))"

text \<open>\<open>s.split('T')[0]\<close>\<close>

definition splitT0 :: "string \<Rightarrow> string" where
  "splitT0 s = takeWhile (\<lambda>c. c \<noteq> CHR ''T'') s"

definition monthLong :: "string list" where
  "monthLong = [''January'', ''February'', ''March'', ''April'', ''May'', ''June'', ''July'',
     ''August'', ''September'', ''October'', ''November'', ''December'']"

definition monthNames :: "string list" where
  "monthNames = [''Jan'', ''Feb'', ''Mar'', ''Apr'', ''May'', ''Jun'', ''Jul'', ''Aug'', ''Sep'',
     ''Oct'', ''Nov'', ''Dec'']"

text \<open>
  The en-US formats print the fields of local time; the year is the year of its era
  (1 BC is year 0).
\<close>

definition yearOfEra :: "int \<Rightarrow> int" where
  "yearOfEra y = (if 1 \<le> y then y else 1 - y)"

text \<open>
  \<open>date.toLocaleString('en-US', { year: 'numeric', month: 'long' })\<close> of a valid
  date.
\<close>

definition toLocaleMonthYear :: "host \<Rightarrow> int \<Rightarrow> string" where
  "toLocaleMonthYear h u =
     (let t = LocalTime h u in
      monthLong ! nat (MonthFromTime t) @ '' '' @ showInt (yearOfEra (YearFromTime t)))"

text \<open>\<open>d.toLocaleDateString('en-US', { month: 'short', day: 'numeric' })\<close>\<close>

definition toLocaleMonthDay :: "host \<Rightarrow> Date \<Rightarrow> string" where
  "toLocaleMonthDay h d =
     (case d of
        None \<Rightarrow> ''Invalid Date''
      | Some u \<Rightarrow>
          (let t = LocalTime h u in
           monthNames ! nat (MonthFromTime t) @ '' '' @ showInt (DateFromTime t)))"

text \<open>
  The function \<open>getWeekStart\<close> of the program. (Its neighbour
  \<open>getWeekNumber\<close> is never called and is left out.)
\<close>

definition getWeekStart :: "host \<Rightarrow> Date \<Rightarrow> Date" where
  "getWeekStart h d =
     (let day = getDay h d;
          diff = (case (getDate h d, day) of
                    (Some dd, Some dy) \<Rightarrow> Some (dd - dy + (if dy = 0 then - 6 else 1))
                  | _ \<Rightarrow> None)
      in setDate h d diff)"

section \<open>The result types\<close>

record ParsedTransaction =
  date :: string
  description :: string
  amount :: number

text \<open>
  \<open>MonthlySpending\<close>, \<open>DailySpending\<close> and \<open>WeeklySpending\<close> are the same
  interface under three names.
\<close>

record Spending =
  name :: string
  spending :: number

type_synonym MonthlySpending = Spending
type_synonym DailySpending = Spending
type_synonym WeeklySpending = Spending

record CSVParseResult =
  transactions :: "ParsedTransaction list"
  monthlySpending :: "MonthlySpending list"
  dailySpending :: "DailySpending list"
  weeklySpending :: "WeeklySpending list"
  totalSpending :: number
  transactionCount :: nat

definition emptyResult :: CSVParseResult where
  "emptyResult =
     \<lparr> transactions = [], monthlySpending = [], dailySpending = [], weeklySpending = [],
       totalSpending = Fin 0, transactionCount = 0 \<rparr>"

section \<open>Maps and sorting\<close>

text \<open>
  A \<open>Map\<close> keeps its entries in insertion order, and \<open>set\<close> on a key that is
  present replaces the value where it stands: an association list with distinct keys.
  \<open>get\<close> is \<open>map_of\<close>.
\<close>

fun map_set :: "(string \<times> 'v) list \<Rightarrow> string \<Rightarrow> 'v \<Rightarrow> (string \<times> 'v) list" where
  "map_set [] k v = [(k, v)]"
| "map_set ((k', v') # m) k v = (if k' = k then (k, v) # m else (k', v') # map_set m k v)"

text \<open>
  \<open>Array.prototype.sort\<close> with a comparator is stable; \<open>le a b\<close> says that
  the comparator's result on \<open>(a, b)\<close> is not positive. The model is insertion
  sort. (For a comparator that is not a consistent order the standard leaves the
  result to the implementation.)
\<close>

fun insertBy :: "('a \<Rightarrow> 'a \<Rightarrow> bool) \<Rightarrow> 'a \<Rightarrow> 'a list \<Rightarrow> 'a list" where
  "insertBy le x [] = [x]"
| "insertBy le x (y # ys) = (if le x y then x # y # ys else y # insertBy le x ys)"

definition sortBy :: "('a \<Rightarrow> 'a \<Rightarrow> bool) \<Rightarrow> 'a list \<Rightarrow> 'a list" where
  "sortBy le xs = foldr (insertBy le) xs []"

text \<open>\<open>a.getTime() - b.getTime() \<le> 0\<close>; a NaN result counts as 0.\<close>

fun timeLe :: "intOrNaN \<Rightarrow> intOrNaN \<Rightarrow> bool" where
  "timeLe (Some a) (Some b) = (a \<le> b)"
| "timeLe a b = True"

text \<open>
  \<open>a.localeCompare(b) \<le> 0\<close> on the keys of the daily map, which consist of digits
  and \<open>-\<close>: on these the collation compares character by character, \<open>-\<close>
  before the digits, as the character codes do.
\<close>

fun localeCompareLe :: "string \<Rightarrow> string \<Rightarrow> bool" where
  "localeCompareLe [] b = True"
| "localeCompareLe (x # xs) [] = False"
| "localeCompareLe (x # xs) (y # ys) =
     ((of_char x :: int) < of_char y \<or> (x = y \<and> localeCompareLe xs ys))"

section \<open>\<open>parseCSV\<close>\<close>

text \<open>\<open>csvContent.split('\n').filter(line => line.trim())\<close>\<close>

definition splitLines :: "string \<Rightarrow> string list" where
  "splitLines csvContent = filter (\<lambda>line. trim line \<noteq> []) (split_newline csvContent)"

text \<open>
  \<open>fields[i]?.trim() || ''\<close>: the empty string when there is no field \<open>i\<close>.
  The variable \<open>fields\<close> of the program is \<open>rowFields\<close> here.
\<close>

definition getField :: "string list \<Rightarrow> int \<Rightarrow> string" where
  "getField rowFields i =
     (if 0 \<le> i \<and> i < int (length rowFields) then trim (rowFields ! nat i) else [])"

text \<open>
  The body of the loop up to the debit filter (\<open>const line\<close> to the \<open>continue\<close>
  of the type check). \<open>None\<close> is \<open>continue\<close>; otherwise the row's
  \<open>dateStr\<close>, \<open>desc\<close> and \<open>spendingAmount\<close>. \<open>parseFloat\<close> does not throw,
  so the \<open>catch\<close> around it is never entered.
\<close>

definition rowChecks ::
  "(rat \<Rightarrow> number) \<Rightarrow> Columns \<Rightarrow> string \<Rightarrow> (string \<times> string \<times> number) option" where
  "rowChecks rnd cols rawLine =
     (let line = trim rawLine in
      if line = [] then None
      else
        (let rowFields = parseCSVLine line in
         if int (length rowFields) \<le> max (dateColIndex cols) (amountColIndex cols) then None
         else
           (let dateStr = getField rowFields (dateColIndex cols);
                amountStr = getField rowFields (amountColIndex cols);
                desc = (if 0 \<le> descColIndex cols then getField rowFields (descColIndex cols) else []);
                typeStr = (if 0 \<le> actualTypeColIndex cols
                           then toLowerCase (getField rowFields (actualTypeColIndex cols)) else []);
                cleanAmount = trim (removeDollarComma amountStr);
                amount = parseFloat rnd cleanAmount
            in if isNaN amount then None
               else if 0 \<le> actualTypeColIndex cols \<and> typeStr \<noteq> ''debit'' then None
               else Some (dateStr, desc, Math_abs amount))))"

text \<open>
  The date step: \<open>new Date()\<close> when \<open>dateStr\<close> is empty, \<open>new Date(dateStr)\<close>
  otherwise; \<open>None\<close> is the \<open>continue\<close> on an invalid date.
\<close>

definition rowDate :: "host \<Rightarrow> string \<Rightarrow> int option" where
  "rowDate h dateStr = (if dateStr \<noteq> [] then newDate h dateStr else Some (now h))"

text \<open>
  The row normalizer: the loop's body down to \<open>transactions.push\<close>. It gives the
  time value of the row's date and the transaction pushed, or \<open>None\<close> when the
  row is skipped.
\<close>

definition normalizeRow ::
  "host \<Rightarrow> Columns \<Rightarrow> string \<Rightarrow> (int \<times> ParsedTransaction) option" where
  "normalizeRow h cols rawLine =
     (case rowChecks (roundNumber h) cols rawLine of
        None \<Rightarrow> None
      | Some (dateStr, desc, spendingAmount) \<Rightarrow>
          (case rowDate h dateStr of
             None \<Rightarrow> None
           | Some t \<Rightarrow>
               Some (t, \<lparr> date = splitT0 (isoString t), description = desc,
                          amount = spendingAmount \<rparr>)))"

text \<open>
  The variables of \<open>parseCSV\<close> that the loop updates; \<open>transactionsVar\<close> and
  \<open>totalSpendingVar\<close> are the variables \<open>transactions\<close> and
  \<open>totalSpending\<close>, whose names the fields of the result have taken.
\<close>

record LoopState =
  transactionsVar :: "ParsedTransaction list"
  monthlyMap :: "(string \<times> number) list"
  dailyMap :: "(string \<times> number) list"
  weeklyMap :: "(string \<times> number \<times> Date) list"
  totalSpendingVar :: number

definition initialState :: LoopState where
  "initialState =
     \<lparr> transactionsVar = [], monthlyMap = [], dailyMap = [], weeklyMap = [],
       totalSpendingVar = Fin 0 \<rparr>"

text \<open>\<open>m.set(key, (m.get(key) || 0) + spendingAmount)\<close>\<close>

definition addToMap ::
  "(rat \<Rightarrow> number) \<Rightarrow> (string \<times> number) list \<Rightarrow> string \<Rightarrow> number
     \<Rightarrow> (string \<times> number) list" where
  "addToMap rnd m key spendingAmount =
     map_set m key (num_add rnd (orZero (map_of m key)) spendingAmount)"

text \<open>
  The weekly map holds objects \<open>{ spending, startDate }\<close>: a new key gets
  \<open>{ spending: 0, startDate: weekStart }\<close>, then \<open>spending\<close> of the key's object
  is increased.
\<close>

definition addToWeekly ::
  "(rat \<Rightarrow> number) \<Rightarrow> (string \<times> number \<times> Date) list \<Rightarrow> string \<Rightarrow> Date \<Rightarrow> number
     \<Rightarrow> (string \<times> number \<times> Date) list" where
  "addToWeekly rnd m weekKey weekStart spendingAmount =
     (case map_of m weekKey of
        None \<Rightarrow> map_set m weekKey (num_add rnd (Fin 0) spendingAmount, weekStart)
      | Some (sp, sd) \<Rightarrow> map_set m weekKey (num_add rnd sp spendingAmount, sd))"

definition dayKeyForMap :: "int \<Rightarrow> string" where
  "dayKeyForMap t =
     showInt (YearFromTime t) @ ''-'' @ padStart0 2 (showInt (MonthFromTime t + 1)) @ ''-''
       @ padStart0 2 (showInt (DateFromTime t))"

text \<open>
  The rest of the loop's body, from \<open>transactions.push\<close> to the end: the
  aggregation of one transaction. \<open>weekStart.toISOString()\<close> is the one call that
  can throw.
\<close>

definition aggregate ::
  "host \<Rightarrow> LoopState \<Rightarrow> int \<Rightarrow> ParsedTransaction \<Rightarrow> error + LoopState" where
  "aggregate h st t txn =
     (let spendingAmount = amount txn;
          monthKey = toLocaleMonthYear h t;
          weekStart = getWeekStart h (Some t)
      in case toISOString weekStart of
           Inl e \<Rightarrow> Inl e
         | Inr weekIso \<Rightarrow>
             Inr \<lparr> transactionsVar = transactionsVar st @ [txn],
                   monthlyMap = addToMap (roundNumber h) (monthlyMap st) monthKey spendingAmount,
                   dailyMap = addToMap (roundNumber h) (dailyMap st) (dayKeyForMap t) spendingAmount,
                   weeklyMap = addToWeekly (roundNumber h) (weeklyMap st) (splitT0 weekIso) weekStart
                                 spendingAmount,
                   totalSpendingVar = num_add (roundNumber h) (totalSpendingVar st) spendingAmount \<rparr>)"

definition processRow :: "host \<Rightarrow> Columns \<Rightarrow> LoopState \<Rightarrow> string \<Rightarrow> error + LoopState" where
  "processRow h cols st rawLine =
     (case normalizeRow h cols rawLine of
        None \<Rightarrow> Inr st
      | Some (t, txn) \<Rightarrow> aggregate h st t txn)"

text \<open>The \<open>for\<close> loop over \<open>lines[1..]\<close>; an exception ends it.\<close>

fun rowLoop :: "host \<Rightarrow> Columns \<Rightarrow> string list \<Rightarrow> LoopState \<Rightarrow> error + LoopState" where
  "rowLoop h cols [] st = Inr st"
| "rowLoop h cols (rawLine # rest) st =
     (case processRow h cols st rawLine of
        Inl e \<Rightarrow> Inl e
      | Inr st' \<Rightarrow> rowLoop h cols rest st')"

subsection \<open>The result assembler\<close>

definition monthlyOf :: "host \<Rightarrow> (string \<times> number) list \<Rightarrow> MonthlySpending list" where
  "monthlyOf h m =
     sortBy (\<lambda>a b. timeLe (getTime (newDate h (name a))) (getTime (newDate h (name b))))
       (map (\<lambda>(k, v). \<lparr> name = k, spending = v \<rparr>) m)"

text \<open>
  An entry of the daily map with its label and its sort key. On an Invalid Date
  \<open>monthNames[NaN]\<close> is undefined and the day is NaN.
\<close>

definition dailyEntry :: "host \<Rightarrow> string \<times> number \<Rightarrow> DailySpending \<times> string" where
  "dailyEntry h e =
     (let d = newDate h (fst e);
          month = (case getUTCMonth d of None \<Rightarrow> ''undefined'' | Some i \<Rightarrow> monthNames ! nat i);
          day = getUTCDate d
      in (\<lparr> name = month @ '' '' @ showNumber day, spending = snd e \<rparr>, fst e))"

definition dailyOf :: "host \<Rightarrow> (string \<times> number) list \<Rightarrow> DailySpending list" where
  "dailyOf h m =
     map fst (sortBy (\<lambda>a b. localeCompareLe (snd a) (snd b)) (map (dailyEntry h) m))"

definition weeklyEntry :: "host \<Rightarrow> string \<times> number \<times> Date \<Rightarrow> WeeklySpending \<times> Date" where
  "weeklyEntry h e =
     (let startDate = snd (snd e);
          weekEnd = setDate h startDate (map_option (\<lambda>d. d + 6) (getDate h startDate));
          endDay = getDate h weekEnd
      in (\<lparr> name = toLocaleMonthDay h startDate @ '' - '' @ showNumber endDay,
            spending = fst (snd e) \<rparr>, startDate))"

definition weeklyOf :: "host \<Rightarrow> (string \<times> number \<times> Date) list \<Rightarrow> WeeklySpending list" where
  "weeklyOf h m =
     map fst (sortBy (\<lambda>a b. timeLe (getTime (snd a)) (getTime (snd b))) (map (weeklyEntry h) m))"

text \<open>\<open>Math.round(totalSpending * 100) / 100\<close>\<close>

definition round2 :: "(rat \<Rightarrow> number) \<Rightarrow> number \<Rightarrow> number" where
  "round2 rnd x = num_divide rnd (Math_round (num_times rnd x 100)) 100"

definition assemble :: "host \<Rightarrow> LoopState \<Rightarrow> CSVParseResult" where
  "assemble h st =
     \<lparr> transactions = transactionsVar st,
       monthlySpending = monthlyOf h (monthlyMap st),
       dailySpending = dailyOf h (dailyMap st),
       weeklySpending = weeklyOf h (weeklyMap st),
       totalSpending = round2 (roundNumber h) (totalSpendingVar st),
       transactionCount = length (transactionsVar st) \<rparr>"

text \<open>
  \<open>parseCSV\<close>. The result is \<open>Inl\<close> when the call throws. The two
  \<open>console\<close> calls write to the console only and are left out.
\<close>

definition parseLines :: "host \<Rightarrow> string list \<Rightarrow> error + CSVParseResult" where
  "parseLines h lines =
     (if length lines < 2 then Inr emptyResult
      else
        (let headers = parseCSVLine (hd lines);
             cols = resolveColumns headers
         in if dateColIndex cols = - 1 \<or> amountColIndex cols = - 1 then Inr emptyResult
            else (case rowLoop h cols (tl lines) initialState of
                    Inl e \<Rightarrow> Inl e
                  | Inr st \<Rightarrow> Inr (assemble h st))))"

definition parseCSV :: "host \<Rightarrow> string \<Rightarrow> error + CSVParseResult" where
  "parseCSV h csvContent = parseLines h (splitLines csvContent)"

text \<open>
  Two hosts for concrete runs: both compute without rounding error and know no
  date format beyond the standard's; one is in UTC, the other five hours west of it
  (a zone such as America/Bogota).
\<close>

definition utcHost :: host where
  "utcHost = \<lparr> roundNumber = Fin, tzOffset = 0, now = 0, hostDateParse = (\<lambda>s. None) \<rparr>"

definition bogotaHost :: host where
  "bogotaHost = \<lparr> roundNumber = Fin, tzOffset = - 18000000, now = 0, hostDateParse = (\<lambda>s. None) \<rparr>"

subsection \<open>Double precision\<close>

text \<open>
  The rounding of the language's Number type: to the nearest double (binary64), a
  tie going to the even significand, with gradual underflow, and to an infinity from
  \<open>2 ^ 1024 - 2 ^ 970\<close> on. It is computed on the numerator \<open>n\<close> and the
  denominator \<open>d\<close> of the absolute value: \<open>floorLog2 n d\<close> is the exponent
  \<open>e\<close> with \<open>2 ^ e \<le> n / d < 2 ^ (e + 1)\<close>, found from the bit lengths of
  \<open>n\<close> and \<open>d\<close>; the unit in the last place is \<open>2 ^ p\<close> with
  \<open>p = max (e - 52) (- 1074)\<close>; the significand \<open>m\<close> is \<open>n / d / 2 ^ p\<close>
  rounded to the nearest integer, at most \<open>2 ^ 53\<close>; and \<open>m * 2 ^ p\<close> is
  \<open>2 ^ 1024\<close> or more exactly when \<open>971 < p\<close>, or \<open>p = 971\<close> and
  \<open>m = 2 ^ 53\<close>.
\<close>

function bitLength :: "int \<Rightarrow> int" where
  "bitLength n = (if n \<le> 0 then 0 else 1 + bitLength (n div 2))"
  by pat_completeness auto
termination
  by (relation "measure nat") auto

declare bitLength.simps [simp del]

text \<open>\<open>2 ^ k\<close> for \<open>k \<ge> 0\<close>, and 1 for a negative \<open>k\<close>.\<close>

function twoPow :: "int \<Rightarrow> int" where
  "twoPow k = (if k \<le> 0 then 1 else 2 * twoPow (k - 1))"
  by pat_completeness auto
termination
  by (relation "measure nat") auto

declare twoPow.simps [simp del]

definition floorLog2 :: "int \<Rightarrow> int \<Rightarrow> int" where
  "floorLog2 n d =
     (let e0 = bitLength n - bitLength d
      in if d * twoPow e0 \<le> n * twoPow (- e0) then e0 else e0 - 1)"

text \<open>The integer nearest to \<open>num / den\<close>, a tie going to the even one.\<close>

definition roundHalfEven :: "int \<Rightarrow> int \<Rightarrow> int" where
  "roundHalfEven num den =
     (let f = num div den; r = num mod den
      in if 2 * r < den then f
         else if den < 2 * r then f + 1
         else if f mod 2 = 0 then f else f + 1)"

definition roundToDouble :: "rat \<Rightarrow> number" where
  "roundToDouble q =
     (case quotient_of q of
        (sn, d) \<Rightarrow>
          if sn = 0 then Fin 0
          else
            (let n = \<bar>sn\<bar>;
                 p = max (floorLog2 n d - 52) (- 1074);
                 m = roundHalfEven (n * twoPow (- p)) (d * twoPow p)
             in if 971 < p \<or> (p = 971 \<and> 9007199254740992 \<le> m)
                then (if sn < 0 then NegInf else PosInf)
                else Fin (of_int ((if sn < 0 then - m else m) * twoPow p) / of_int (twoPow (- p)))))"

text \<open>A host in UTC that computes in double precision, as the language does.\<close>

definition doubleHost :: host where
  "doubleHost =
     \<lparr> roundNumber = roundToDouble, tzOffset = 0, now = 0, hostDateParse = (\<lambda>s. None) \<rparr>"

section \<open>Notions used in the statements\<close>

text \<open>The order of Number values; NaN compares with nothing.\<close>

fun numLe :: "number \<Rightarrow> number \<Rightarrow> bool" where
  "numLe NaN y = False"
| "numLe x NaN = False"
| "numLe NegInf y = True"
| "numLe x PosInf = True"
| "numLe (Fin a) (Fin b) = (a \<le> b)"
| "numLe x y = False"

text \<open>
  The sum of a list of Numbers as the program adds them: from 0, left to right,
  every addition rounded by the host.
\<close>

definition sumNumbers :: "(rat \<Rightarrow> number) \<Rightarrow> number list \<Rightarrow> number" where
  "sumNumbers rnd xs = foldl (num_add rnd) (Fin 0) xs"

text \<open>
  What the statements assume of the host's rounding, all of it true of the rounding
  to the nearest double: 0 is a Number, rounding is monotone, and a Number rounds to
  itself.
\<close>

definition faithfulRounding :: "(rat \<Rightarrow> number) \<Rightarrow> bool" where
  "faithfulRounding rnd \<longleftrightarrow>
     rnd 0 = Fin 0 \<and> (\<forall>a b. a \<le> b \<longrightarrow> numLe (rnd a) (rnd b))
     \<and> (\<forall>a b. rnd a = Fin b \<longrightarrow> rnd b = Fin b)"

text \<open>The running sum of a bucket: \<open>m.get(key) || 0\<close>.\<close>

definition bucketValue :: "(string \<times> number) list \<Rightarrow> string \<Rightarrow> number" where
  "bucketValue m key = orZero (map_of m key)"

definition weekValue :: "(string \<times> number \<times> Date) list \<Rightarrow> string \<Rightarrow> number" where
  "weekValue m key = orZero (map_option fst (map_of m key))"







text \<open>
  A rational rounded to two decimal places (the nearest multiple of 1/100, a tie
  going up), as the words of the specification have it.
\<close>

definition roundTo2Decimals :: "rat \<Rightarrow> rat" where
  "roundTo2Decimals q = of_int \<lfloor>q * 100 + 1 / 2\<rfloor> / 100"

definition isFinite :: "number \<Rightarrow> bool" where
  "isFinite x \<longleftrightarrow> (case x of Fin q \<Rightarrow> True | _ \<Rightarrow> False)"

text \<open>
  The rows that \<open>parseCSV\<close> keeps, in the order of the input, each with the time
  value of its date and its transaction; none when the call returns early.
\<close>

definition keptRows :: "host \<Rightarrow> string \<Rightarrow> (int \<times> ParsedTransaction) list" where
  "keptRows h csvContent =
     (let cols = resolveColumns (parseCSVLine (hd (splitLines csvContent)))
      in if length (splitLines csvContent) < 2 \<or> dateColIndex cols = - 1
            \<or> amountColIndex cols = - 1
         then []
         else List.map_filter (normalizeRow h cols) (tl (splitLines csvContent)))"

text \<open>
  A bucketing is given by the key it computes from the time value of a row: the
  keys that occur, each once, and for a key the amounts of the rows that have it, in
  the order of the input.
\<close>

definition keysOf :: "(int \<Rightarrow> string) \<Rightarrow> (int \<times> ParsedTransaction) list \<Rightarrow> string list" where
  "keysOf key kept = remdups (map (\<lambda>p. key (fst p)) kept)"

definition amountsWithKey ::
  "(int \<Rightarrow> string) \<Rightarrow> string \<Rightarrow> (int \<times> ParsedTransaction) list \<Rightarrow> number list" where
  "amountsWithKey key k kept = map (\<lambda>p. amount (snd p)) (filter (\<lambda>p. key (fst p) = k) kept)"

text \<open>
  The sum of the amounts of a monthly or daily bucket as the program accumulates
  it, \<open>(m.get(key) || 0) + spendingAmount\<close> for each amount in turn. It is
  \<open>sumNumbers\<close> unless a partial sum is NaN.
\<close>

definition bucketSum :: "(rat \<Rightarrow> number) \<Rightarrow> number list \<Rightarrow> number" where
  "bucketSum rnd xs = foldl (\<lambda>s a. num_add rnd (orZero (Some s)) a) (Fin 0) xs"

definition bucketSums ::
  "(rat \<Rightarrow> number) \<Rightarrow> (int \<Rightarrow> string) \<Rightarrow> (int \<times> ParsedTransaction) list \<Rightarrow> number list" where
  "bucketSums rnd key kept = map (\<lambda>k. bucketSum rnd (amountsWithKey key k kept)) (keysOf key kept)"

definition weekSums ::
  "(rat \<Rightarrow> number) \<Rightarrow> (int \<Rightarrow> string) \<Rightarrow> (int \<times> ParsedTransaction) list \<Rightarrow> number list" where
  "weekSums rnd key kept = map (\<lambda>k. sumNumbers rnd (amountsWithKey key k kept)) (keysOf key kept)"

text \<open>The weekly key of a row: the ISO date of \<open>getWeekStart\<close> of its date.\<close>

definition weekKey :: "host \<Rightarrow> int \<Rightarrow> string" where
  "weekKey h t = (case getWeekStart h (Some t) of None \<Rightarrow> [] | Some w \<Rightarrow> splitT0 (isoString w))"

section \<open>Invariants of the loop\<close>


text \<open>Every amount pushed so far is at least 0.\<close>

definition amountsInv :: "LoopState \<Rightarrow> bool" where
  "amountsInv st \<longleftrightarrow> (\<forall>t\<in>set (transactionsVar st). numLe (Fin 0) (amount t))"

text \<open>
  A running sum is at least 0 and, when finite, a Number (it rounds to itself); all
  the running sums of the three maps are so.
\<close>

definition okValue :: "(rat \<Rightarrow> number) \<Rightarrow> number \<Rightarrow> bool" where
  "okValue rnd v \<longleftrightarrow> numLe (Fin 0) v \<and> (\<forall>q. v = Fin q \<longrightarrow> rnd q = Fin q)"

definition bucketsInv :: "(rat \<Rightarrow> number) \<Rightarrow> LoopState \<Rightarrow> bool" where
  "bucketsInv rnd st \<longleftrightarrow>
     (\<forall>e\<in>set (monthlyMap st). okValue rnd (snd e))
     \<and> (\<forall>e\<in>set (dailyMap st). okValue rnd (snd e))
     \<and> (\<forall>e\<in>set (weeklyMap st). okValue rnd (fst (snd e)))"




section \<open>The field tokenizer\<close>

lemma parseCSVLine_loop_quoted:
  "parseCSVLine_loop (doubleQuotes f @ [CHR 0x22]) result current True
     = result @ [trim (current @ f)]"
proof (induction f arbitrary: current)
  case Nil
  then show ?case by simp
next
  case (Cons c cs)
  show ?case
  proof (cases "c = CHR 0x22")
    case True
    then show ?thesis using Cons.IH[of "current @ [CHR 0x22]"] by simp
  next
    case False
    obtain n rest where nr: "doubleQuotes cs @ [CHR 0x22] = n # rest"
      by (cases "doubleQuotes cs @ [CHR 0x22]") auto
    have "parseCSVLine_loop (c # n # rest) result current True
          = parseCSVLine_loop (n # rest) result (current @ [c]) True"
      using False by simp
    then show ?thesis using Cons.IH[of "current @ [c]"] False nr by simp
  qed
qed

lemma parseCSVLine_writeField: "parseCSVLine (writeField f) = [trim f]"
proof -
  obtain n rest where nr: "doubleQuotes f @ [CHR 0x22] = n # rest"
    by (cases "doubleQuotes f @ [CHR 0x22]") auto
  have "parseCSVLine_loop (CHR 0x22 # n # rest) [] [] False
        = parseCSVLine_loop (n # rest) [] [] True"
    by simp
  then show ?thesis
    unfolding parseCSVLine_def writeField_def
    using nr parseCSVLine_loop_quoted[of f "[]" "[]"] by simp
qed

text \<open>
  C7, as amended. A field written by the reference writer (wrapped in double quotes,
  embedded quotes doubled) is read back by the tokenizer as one field: the original
  value with the white space at its two ends removed. So the value itself comes back
  exactly when it has no white space at either end; commas and quotes inside it are
  kept as they are.
\<close>

theorem tokenizer_round_trip_trimmed:
  "parseCSVLine (writeField f) = [trim f]
   \<and> (trim f = f \<longrightarrow> parseCSVLine (writeField f) = [f])"
  by (simp add: parseCSVLine_writeField)

theorem tokenizer_round_trip_trimmed_witness:
  "trim (''a,'' @ [CHR 0x22] @ ''b'') = ''a,'' @ [CHR 0x22] @ ''b''
   \<and> parseCSVLine (writeField (''a,'' @ [CHR 0x22] @ ''b'')) = [''a,'' @ [CHR 0x22] @ ''b'']"
proof -
  have h: "trim (''a,'' @ [CHR 0x22] @ ''b'') = ''a,'' @ [CHR 0x22] @ ''b''"
    by code_simp
  from tokenizer_round_trip_trimmed[of "''a,'' @ [CHR 0x22] @ ''b''"] h
  show ?thesis by blast
qed

text \<open>
  The claim C7 as it is written fails on a field that contains a comma and starts
  with a space: the space is lost.
\<close>

theorem tokenizer_round_trip_counterexample:
  "CHR '','' \<in> set '' ,'' \<and> parseCSVLine (writeField '' ,'') \<noteq> ['' ,'']"
  by code_simp

section \<open>The header resolver\<close>

lemma findIndex_ge: "- 1 \<le> findIndex P hs"
  by (induction hs) (auto simp: Let_def)

lemma findIndex_none: "(\<forall>h\<in>set hs. \<not> P h) \<Longrightarrow> findIndex P hs = - 1"
  by (induction hs) (auto simp: Let_def)

lemma findIndex_some: "\<exists>h\<in>set hs. P h \<Longrightarrow> 0 \<le> findIndex P hs"
proof (induction hs)
  case Nil
  then show ?case by simp
next
  case (Cons a hs)
  show ?case
  proof (cases "P a")
    case True
    then show ?thesis by simp
  next
    case False
    with Cons.prems have "\<exists>h\<in>set hs. P h" by auto
    from Cons.IH[OF this] show ?thesis using False by (simp add: Let_def)
  qed
qed

lemma findIndex_first:
  "0 \<le> findIndex P hs \<Longrightarrow>
     nat (findIndex P hs) < length hs \<and> P (hs ! nat (findIndex P hs))
     \<and> (\<forall>j < nat (findIndex P hs). \<not> P (hs ! j))"
proof (induction hs)
  case Nil
  then show ?case by simp
next
  case (Cons h hs)
  show ?case
  proof (cases "P h")
    case True
    then show ?thesis by simp
  next
    case False
    with Cons.prems have ge: "0 \<le> findIndex P hs"
      by (auto simp: Let_def split: if_splits)
    from Cons.IH[OF ge] have ih: "nat (findIndex P hs) < length hs"
      "P (hs ! nat (findIndex P hs))" "\<forall>j < nat (findIndex P hs). \<not> P (hs ! j)"
      by auto
    have eq: "findIndex P (h # hs) = findIndex P hs + 1"
      using False ge by (simp add: Let_def)
    have n: "nat (findIndex P hs + 1) = Suc (nat (findIndex P hs))"
      using ge by simp
    show ?thesis
      unfolding eq n using ih False by (auto simp: nth_Cons split: nat.splits)
  qed
qed

lemma findIndex_append:
  "\<forall>h\<in>set pre. \<not> P h \<Longrightarrow>
     findIndex P (pre @ r) = (if findIndex P r < 0 then - 1 else int (length pre) + findIndex P r)"
  using findIndex_ge[of P r] by (induction pre) (auto simp: Let_def)

lemma indexOf_findIndex: "indexOf hs x = findIndex (\<lambda>h. h = x) hs"
  by (induction hs) (auto simp: Let_def)

lemma findColumnIndex_loop_findIndex:
  "\<forall>h\<in>set pre. \<not> matchesAny h ps \<Longrightarrow>
     findColumnIndex_loop (pre @ rest) rest ps = findIndex (\<lambda>h. matchesAny h ps) (pre @ rest)"
proof (induction rest arbitrary: pre)
  case Nil
  then show ?case by (simp add: findIndex_none)
next
  case (Cons header rest)
  show ?case
  proof (cases "matchesAny header ps")
    case True
    have ne: "\<forall>h\<in>set pre. \<not> h = header" using Cons.prems True by auto
    have "indexOf (pre @ header # rest) header = int (length pre)"
      unfolding indexOf_findIndex
      using findIndex_append[of pre "\<lambda>h. h = header" "header # rest"] ne by simp
    moreover have "findIndex (\<lambda>h. matchesAny h ps) (pre @ header # rest) = int (length pre)"
      using findIndex_append[of pre "\<lambda>h. matchesAny h ps" "header # rest"] Cons.prems True
      by simp
    ultimately show ?thesis using True by simp
  next
    case False
    then have "\<forall>h\<in>set (pre @ [header]). \<not> matchesAny h ps" using Cons.prems by auto
    from Cons.IH[OF this] show ?thesis using False by simp
  qed
qed

lemma findColumnIndex_findIndex:
  "findColumnIndex headers ps = findIndex (\<lambda>h. matchesAny h ps) headers"
  unfolding findColumnIndex_def using findColumnIndex_loop_findIndex[of "[]" ps headers] by simp

lemma matchesAny_set: "set ps = set ps' \<Longrightarrow> matchesAny h ps = matchesAny h ps'"
  by (simp add: matchesAny_def list_ex_iff)

text \<open>
  C6, as amended. The resolver does not rank the synonyms: it returns the index of
  the first header, in the order of the header row, whose trimmed lower-cased text
  contains any of the type synonyms, and the order in which the synonyms are listed
  does not change the result. Only when no header contains a synonym does it fall
  back to the first header whose trimmed lower-cased text is exactly
  \<open>transaction\<close> (-1 when there is none).
\<close>

theorem type_column_first_matching_header:
  "(if \<exists>h\<in>set headers. matchesAny h typePatterns
    then 0 \<le> resolveType headers \<and> nat (resolveType headers) < length headers
       \<and> matchesAny (headers ! nat (resolveType headers)) typePatterns
       \<and> (\<forall>j < nat (resolveType headers). \<not> matchesAny (headers ! j) typePatterns)
    else resolveType headers = findIndex (\<lambda>h. trim (toLowerCase h) = ''transaction'') headers)
   \<and> (set ps = set typePatterns
        \<longrightarrow> findColumnIndex headers ps = findColumnIndex headers typePatterns)"
proof -
  let ?P = "\<lambda>h. matchesAny h typePatterns"
  have order: "set ps = set typePatterns
     \<longrightarrow> findColumnIndex headers ps = findColumnIndex headers typePatterns"
  proof
    assume "set ps = set typePatterns"
    then have "(\<lambda>h. matchesAny h ps) = ?P" using matchesAny_set by blast
    then show "findColumnIndex headers ps = findColumnIndex headers typePatterns"
      by (simp add: findColumnIndex_findIndex)
  qed
  show ?thesis
  proof (cases "\<exists>h\<in>set headers. ?P h")
    case True
    then have ge: "0 \<le> findIndex ?P headers" by (rule findIndex_some)
    then have rt: "resolveType headers = findIndex ?P headers"
      by (simp add: resolveType_def findColumnIndex_findIndex Let_def)
    show ?thesis using True findIndex_first[OF ge] ge order unfolding rt by simp
  next
    case False
    then have "findIndex ?P headers = - 1" by (simp add: findIndex_none)
    then have "resolveType headers
        = findIndex (\<lambda>h. trim (toLowerCase h) = ''transaction'') headers"
      by (simp add: resolveType_def findColumnIndex_findIndex Let_def)
    then show ?thesis using False order by simp
  qed
qed

theorem type_column_first_matching_header_witness:
  "(\<exists>h\<in>set [''Date'', ''Account Type'', ''Transaction Type'', ''Amount''].
       matchesAny h typePatterns)
   \<and> resolveType [''Date'', ''Account Type'', ''Transaction Type'', ''Amount''] = 1
   \<and> set [''dr/cr'', ''debit/credit'', ''type'', ''transaction type'', ''trans type'',
          ''type of transaction''] = set typePatterns
   \<and> findColumnIndex [''Date'', ''Account Type'', ''Transaction Type'', ''Amount'']
        [''dr/cr'', ''debit/credit'', ''type'', ''transaction type'', ''trans type'',
          ''type of transaction'']
      = findColumnIndex [''Date'', ''Account Type'', ''Transaction Type'', ''Amount'']
          typePatterns"
proof -
  have ex: "\<exists>h\<in>set [''Date'', ''Account Type'', ''Transaction Type'', ''Amount''].
      matchesAny h typePatterns"
    by code_simp
  have rt: "resolveType [''Date'', ''Account Type'', ''Transaction Type'', ''Amount''] = 1"
    by code_simp
  have st: "set [''dr/cr'', ''debit/credit'', ''type'', ''transaction type'', ''trans type'',
          ''type of transaction''] = set typePatterns"
    by (auto simp: typePatterns_def)
  from type_column_first_matching_header
    [of "[''Date'', ''Account Type'', ''Transaction Type'', ''Amount'']"
        "[''dr/cr'', ''debit/credit'', ''type'', ''transaction type'', ''trans type'',
          ''type of transaction'']"] ex rt st
  show ?thesis by simp
qed

text \<open>
  The claim C6 as it is written fails on the header row Date, Account Type,
  Transaction Type, Amount: \<open>Transaction Type\<close> carries the more specific label
  \<open>transaction type\<close>, \<open>Account Type\<close> matches the generic \<open>type\<close> only, and
  the resolver returns the index of \<open>Account Type\<close>.
\<close>

theorem type_priority_counterexample:
  "matchesAny ''Transaction Type'' [''transaction type'']
   \<and> matchesAny ''Account Type'' [''type'']
   \<and> \<not> matchesAny ''Account Type''
         [''type of transaction'', ''trans type'', ''transaction type'', ''debit/credit'', ''dr/cr'']
   \<and> resolveType [''Date'', ''Account Type'', ''Transaction Type'', ''Amount''] = 1"
  by code_simp

section \<open>The loop of \<open>parseCSV\<close>\<close>

lemma aggregate_Inr:
  assumes "aggregate h st t txn = Inr st'"
  shows "transactionsVar st' = transactionsVar st @ [txn]"
    and "totalSpendingVar st' = num_add (roundNumber h) (totalSpendingVar st) (amount txn)"
    and "monthlyMap st'
         = addToMap (roundNumber h) (monthlyMap st) (toLocaleMonthYear h t) (amount txn)"
    and "dailyMap st' = addToMap (roundNumber h) (dailyMap st) (dayKeyForMap t) (amount txn)"
    and "\<exists>w. getWeekStart h (Some t) = Some w
           \<and> weeklyMap st' = addToWeekly (roundNumber h) (weeklyMap st) (splitT0 (isoString w))
                (Some w) (amount txn)"
  using assms
  by (auto simp: aggregate_def Let_def toISOString_def split: option.splits sum.splits)

lemma processRow_Inr:
  "processRow h cols st row = Inr st' \<Longrightarrow>
     st' = st
     \<or> (\<exists>t txn. normalizeRow h cols row = Some (t, txn) \<and> aggregate h st t txn = Inr st')"
  by (auto simp: processRow_def split: option.splits)

lemma rowLoop_invariant:
  assumes step: "\<And>st row st'. P st \<Longrightarrow> processRow h cols st row = Inr st' \<Longrightarrow> P st'"
    and "P st" and "rowLoop h cols rows st = Inr st'"
  shows "P st'"
  using assms(2,3)
proof (induction rows arbitrary: st)
  case Nil
  then show ?case by simp
next
  case (Cons row rows)
  from Cons.prems(2) obtain st1 where s1: "processRow h cols st row = Inr st1"
    and s2: "rowLoop h cols rows st1 = Inr st'"
    by (auto split: sum.splits)
  from step[OF Cons.prems(1) s1] have "P st1" .
  from Cons.IH[OF this s2] show ?case .
qed

lemma parseLines_Inr:
  assumes "parseLines h ls = Inr r"
  shows "r = emptyResult
     \<or> (\<exists>st. rowLoop h (resolveColumns (parseCSVLine (hd ls))) (tl ls) initialState = Inr st
            \<and> r = assemble h st)"
  using assms
  by (auto simp: parseLines_def Let_def split: if_splits sum.splits)




section \<open>Concrete runs\<close>

text \<open>
  One statement with three rows, run on the UTC host: amounts written \<open>-42.50\<close>,
  \<open>$42.50\<close> and \<open>0.125\<close>.
\<close>

lemma run_three_rows:
  "parseCSV utcHost (''Date,Description,Amount'' @ [CHR 0x0A] @ ''2024-01-05,Coffee,-42.50''
      @ [CHR 0x0A] @ ''2024-01-06,Tea,$42.50'' @ [CHR 0x0A] @ ''2024-01-07,Gum,0.125'')
   = Inr \<lparr> transactions =
             [\<lparr> date = ''2024-01-05'', description = ''Coffee'', amount = Fin (85 / 2) \<rparr>,
              \<lparr> date = ''2024-01-06'', description = ''Tea'', amount = Fin (85 / 2) \<rparr>,
              \<lparr> date = ''2024-01-07'', description = ''Gum'', amount = Fin (1 / 8) \<rparr>],
           monthlySpending = [\<lparr> name = ''January 2024'', spending = Fin (681 / 8) \<rparr>],
           dailySpending =
             [\<lparr> name = ''Jan 5'', spending = Fin (85 / 2) \<rparr>,
              \<lparr> name = ''Jan 6'', spending = Fin (85 / 2) \<rparr>,
              \<lparr> name = ''Jan 7'', spending = Fin (1 / 8) \<rparr>],
           weeklySpending = [\<lparr> name = ''Jan 1 - 7'', spending = Fin (681 / 8) \<rparr>],
           totalSpending = Fin (8513 / 100), transactionCount = 3 \<rparr>"
  by code_simp

text \<open>
  Scenarios A, B and C of the specification, on the UTC host: two rows without a
  type column; a debit and a credit row; a quoted amount with a thousands comma.
\<close>

lemma scenario_A:
  "parseCSV utcHost (''Date,Description,Amount'' @ [CHR 0x0A] @ ''2024-01-05,Coffee,-4.50''
      @ [CHR 0x0A] @ ''2024-01-20,Rent,1200.00'')
   = Inr \<lparr> transactions =
             [\<lparr> date = ''2024-01-05'', description = ''Coffee'', amount = Fin (9 / 2) \<rparr>,
              \<lparr> date = ''2024-01-20'', description = ''Rent'', amount = Fin 1200 \<rparr>],
           monthlySpending = [\<lparr> name = ''January 2024'', spending = Fin (2409 / 2) \<rparr>],
           dailySpending =
             [\<lparr> name = ''Jan 5'', spending = Fin (9 / 2) \<rparr>,
              \<lparr> name = ''Jan 20'', spending = Fin 1200 \<rparr>],
           weeklySpending =
             [\<lparr> name = ''Jan 1 - 7'', spending = Fin (9 / 2) \<rparr>,
              \<lparr> name = ''Jan 15 - 21'', spending = Fin 1200 \<rparr>],
           totalSpending = Fin (2409 / 2), transactionCount = 2 \<rparr>"
  by code_simp

lemma scenario_B:
  "parseCSV utcHost (''Posted Date,Merchant,Amount,Type'' @ [CHR 0x0A]
      @ ''2024-02-01,Gym,30.00,debit'' @ [CHR 0x0A] @ ''2024-02-02,Refund,30.00,credit'')
   = Inr \<lparr> transactions =
             [\<lparr> date = ''2024-02-01'', description = ''Gym'', amount = Fin 30 \<rparr>],
           monthlySpending = [\<lparr> name = ''February 2024'', spending = Fin 30 \<rparr>],
           dailySpending = [\<lparr> name = ''Feb 1'', spending = Fin 30 \<rparr>],
           weeklySpending = [\<lparr> name = ''Jan 29 - 4'', spending = Fin 30 \<rparr>],
           totalSpending = Fin 30, transactionCount = 1 \<rparr>"
  by code_simp

lemma scenario_C:
  "map_sum id transactions
     (parseCSV utcHost (''Date,Amount'' @ [CHR 0x0A] @ ''2024-01-05,'' @ [CHR 0x22]
        @ ''1,234.56'' @ [CHR 0x22]))
   = Inr [\<lparr> date = ''2024-01-05'', description = [], amount = Fin (30864 / 25) \<rparr>]"
  by code_simp

section \<open>The grand total\<close>



section \<open>Inputs without usable data\<close>

lemma trim_Nil: "trim [] = []"
  by (simp add: trim_def)

lemma length_filter_mono:
  "(\<And>x. P x \<Longrightarrow> Q x) \<Longrightarrow> length (filter P xs) \<le> length (filter Q xs)"
  by (induction xs) auto

lemma splitLines_le_nonempty:
  "length (splitLines csv) \<le> length (filter (\<lambda>l. l \<noteq> []) (split_newline csv))"
  unfolding splitLines_def by (rule length_filter_mono) (auto simp: trim_Nil)

text \<open>
  C4. When the text has fewer than two non-empty lines (a fortiori fewer than two
  lines that are not blank, which is what the program counts), or when the header
  row resolves no date column or no amount column, \<open>parseCSV\<close> returns the empty
  result and does not throw.
\<close>

theorem unusable_input_gives_empty_result:
  assumes "length (filter (\<lambda>l. l \<noteq> []) (split_newline csv)) < 2
           \<or> length (splitLines csv) < 2
           \<or> dateColIndex (resolveColumns (parseCSVLine (hd (splitLines csv)))) = - 1
           \<or> amountColIndex (resolveColumns (parseCSVLine (hd (splitLines csv)))) = - 1"
  shows "parseCSV h csv =
           Inr \<lparr> transactions = [], monthlySpending = [], dailySpending = [],
                 weeklySpending = [], totalSpending = Fin 0, transactionCount = 0 \<rparr>"
proof -
  have "length (splitLines csv) < 2
        \<or> dateColIndex (resolveColumns (parseCSVLine (hd (splitLines csv)))) = - 1
        \<or> amountColIndex (resolveColumns (parseCSVLine (hd (splitLines csv)))) = - 1"
    using assms splitLines_le_nonempty[of csv] by auto
  then show ?thesis
    by (auto simp: parseCSV_def parseLines_def emptyResult_def Let_def)
qed

theorem unusable_input_gives_empty_result_witness:
  "length (filter (\<lambda>l. l \<noteq> []) (split_newline ''Date,Amount'')) < 2
   \<and> parseCSV utcHost ''Date,Amount'' =
       Inr \<lparr> transactions = [], monthlySpending = [], dailySpending = [],
             weeklySpending = [], totalSpending = Fin 0, transactionCount = 0 \<rparr>
   \<and> dateColIndex (resolveColumns (parseCSVLine (hd (splitLines
         (''Memo,Amount'' @ [CHR 0x0A] @ ''x,5''))))) = - 1
   \<and> parseCSV utcHost (''Memo,Amount'' @ [CHR 0x0A] @ ''x,5'') =
       Inr \<lparr> transactions = [], monthlySpending = [], dailySpending = [],
             weeklySpending = [], totalSpending = Fin 0, transactionCount = 0 \<rparr>"
proof -
  have a: "length (filter (\<lambda>l. l \<noteq> []) (split_newline ''Date,Amount'')) < 2"
    by code_simp
  have b: "dateColIndex (resolveColumns (parseCSVLine (hd (splitLines
         (''Memo,Amount'' @ [CHR 0x0A] @ ''x,5''))))) = - 1"
    by code_simp
  from a b unusable_input_gives_empty_result[of "''Date,Amount''" utcHost]
    unusable_input_gives_empty_result[of "''Memo,Amount'' @ [CHR 0x0A] @ ''x,5''" utcHost]
  show ?thesis by blast
qed

section \<open>Exceptions\<close>

text \<open>
  C3 says that \<open>parseCSV\<close> returns a result on every input and never throws.
  The program does throw: on the UTC host, for the one-row statement whose date is
  \<open>-271821-04-20\<close>, the first day a Date can hold (a Tuesday), the Monday that
  \<open>getWeekStart\<close> moves to lies before the range of time values, \<open>setDate\<close>
  leaves an Invalid Date and \<open>weekStart.toISOString()\<close> throws a RangeError,
  which nothing catches.
\<close>

theorem week_start_out_of_range_throws:
  "parseCSV utcHost (''Date,Amount'' @ [CHR 0x0A] @ ''-271821-04-20,1'') = Inl RangeError"
  by code_simp

section \<open>The weekly key and the time zone\<close>

text \<open>
  C9 says that the weekly key is the ISO date of the Monday on or before the
  transaction's date, and that the transactions of 2024-03-04 and 2024-03-10 share
  the bucket of week start 2024-03-04. \<open>getWeekStart\<close> reads the day of the week
  and the day of the month in local time, and the key is then printed in UTC. On a
  host five hours west of UTC, UTC midnight of Monday 2024-03-04 is Sunday evening
  local time: the key of that transaction is 2024-02-27, a Tuesday, the key of the
  other is 2024-03-05, and the result has two weekly buckets.
\<close>

theorem week_key_west_of_utc:
  "toISOString (getWeekStart bogotaHost (newDate bogotaHost ''2024-03-04''))
     = Inr ''2024-02-27T00:00:00.000Z''
   \<and> toISOString (getWeekStart bogotaHost (newDate bogotaHost ''2024-03-10''))
     = Inr ''2024-03-05T00:00:00.000Z''
   \<and> parseCSV bogotaHost (''Date,Amount'' @ [CHR 0x0A] @ ''2024-03-04,10'' @ [CHR 0x0A]
        @ ''2024-03-10,20'')
     = Inr \<lparr> transactions =
               [\<lparr> date = ''2024-03-04'', description = [], amount = Fin 10 \<rparr>,
                \<lparr> date = ''2024-03-10'', description = [], amount = Fin 20 \<rparr>],
             monthlySpending = [\<lparr> name = ''March 2024'', spending = Fin 30 \<rparr>],
             dailySpending =
               [\<lparr> name = ''Mar 4'', spending = Fin 10 \<rparr>,
                \<lparr> name = ''Mar 10'', spending = Fin 20 \<rparr>],
             weeklySpending =
               [\<lparr> name = ''Feb 26 - 3'', spending = Fin 10 \<rparr>,
                \<lparr> name = ''Mar 4 - 10'', spending = Fin 20 \<rparr>],
             totalSpending = Fin 30, transactionCount = 2 \<rparr>"
  by code_simp

text \<open>On the UTC host the two transactions do share one bucket, of week start 2024-03-04.\<close>

lemma week_key_on_utc:
  "toISOString (getWeekStart utcHost (newDate utcHost ''2024-03-04''))
     = Inr ''2024-03-04T00:00:00.000Z''
   \<and> toISOString (getWeekStart utcHost (newDate utcHost ''2024-03-10''))
     = Inr ''2024-03-04T00:00:00.000Z''
   \<and> map_sum id weeklySpending
        (parseCSV utcHost (''Date,Amount'' @ [CHR 0x0A] @ ''2024-03-04,10'' @ [CHR 0x0A]
           @ ''2024-03-10,20''))
     = Inr [\<lparr> name = ''Mar 4 - 10'', spending = Fin 30 \<rparr>]"
  by code_simp

section \<open>Amounts and running sums\<close>

lemma numLe_refl: "x \<noteq> NaN \<Longrightarrow> numLe x x"
  by (cases x) auto

lemma numLe_zero_not_NaN: "numLe (Fin 0) v \<Longrightarrow> v \<noteq> NaN"
  by (cases v) auto

lemma Math_abs_nonneg: "\<not> isNaN a \<Longrightarrow> numLe (Fin 0) (Math_abs a)"
  by (cases a) (auto simp: isNaN_def)

lemma rowChecks_nonneg: "rowChecks rnd cols row = Some (ds, desc, amt) \<Longrightarrow> numLe (Fin 0) amt"
  by (auto simp: rowChecks_def Let_def Math_abs_nonneg split: if_splits)

lemma normalizeRow_nonneg:
  "normalizeRow h cols row = Some (t, txn) \<Longrightarrow> numLe (Fin 0) (amount txn)"
proof -
  assume n: "normalizeRow h cols row = Some (t, txn)"
  then obtain ds desc amt where rc: "rowChecks (roundNumber h) cols row = Some (ds, desc, amt)"
    and "amount txn = amt"
    by (auto simp: normalizeRow_def split: option.splits)
  with rowChecks_nonneg[OF rc] show ?thesis by simp
qed

lemma amountsInv_step:
  assumes "amountsInv st" and "processRow h cols st row = Inr st'"
  shows "amountsInv st'"
proof -
  from processRow_Inr[OF assms(2)] show ?thesis
  proof
    assume "st' = st"
    with assms(1) show ?thesis by simp
  next
    assume "\<exists>t txn. normalizeRow h cols row = Some (t, txn) \<and> aggregate h st t txn = Inr st'"
    then obtain t txn where n: "normalizeRow h cols row = Some (t, txn)"
      and a: "aggregate h st t txn = Inr st'" by blast
    show ?thesis
      using assms(1) aggregate_Inr(1)[OF a] normalizeRow_nonneg[OF n]
      by (simp add: amountsInv_def)
  qed
qed

lemma okValue_zero: "faithfulRounding rnd \<Longrightarrow> okValue rnd (Fin 0)"
  by (simp add: okValue_def faithfulRounding_def)

lemma okValue_add:
  assumes f: "faithfulRounding rnd" and s: "okValue rnd s" and a: "numLe (Fin 0) a"
  shows "okValue rnd (num_add rnd s a) \<and> numLe s (num_add rnd s a)"
proof (cases s)
  case NaN
  with s show ?thesis by (simp add: okValue_def)
next
  case NegInf
  with s show ?thesis by (simp add: okValue_def)
next
  case PosInf
  with a show ?thesis by (cases a) (auto simp: okValue_def)
next
  case (Fin x)
  with s have x: "0 \<le> x" "rnd x = Fin x" by (auto simp: okValue_def)
  show ?thesis
  proof (cases a)
    case NaN
    with a show ?thesis by simp
  next
    case NegInf
    with a show ?thesis by simp
  next
    case PosInf
    then show ?thesis using Fin by (simp add: okValue_def)
  next
    case (Fin y)
    with a have y: "0 \<le> y" by simp
    have le: "x \<le> x + y" "0 \<le> x + y" using x(1) y by auto
    from f have mono: "\<And>a b. a \<le> b \<Longrightarrow> numLe (rnd a) (rnd b)"
      and z: "rnd 0 = Fin 0" and idem: "\<And>q. rnd (x + y) = Fin q \<Longrightarrow> rnd q = Fin q"
      unfolding faithfulRounding_def by auto
    have m1: "numLe (rnd x) (rnd (x + y))" and m0: "numLe (rnd 0) (rnd (x + y))"
      using mono[OF le(1)] mono[OF le(2)] by auto
    show ?thesis
      using m1 m0 z idem x(2) \<open>s = Fin x\<close> Fin by (auto simp: okValue_def)
  qed
qed

lemma okValue_orZero: "okValue rnd v \<Longrightarrow> orZero (Some v) = v"
  by (auto simp: okValue_def dest: numLe_zero_not_NaN)

lemma set_map_set: "set (map_set m k v) \<subseteq> insert (k, v) (set m)"
  by (induction m) (auto split: if_splits)

lemma map_of_map_set: "map_of (map_set m k v) k' = (if k' = k then Some v else map_of m k')"
  by (induction m) auto

lemma okValue_lookup:
  assumes "faithfulRounding rnd" and "\<forall>e\<in>set m. okValue rnd (snd e)"
  shows "okValue rnd (orZero (map_of m k))"
proof (cases "map_of m k")
  case None
  then show ?thesis using assms(1) by (simp add: okValue_zero)
next
  case (Some v)
  then have "(k, v) \<in> set m" by (rule map_of_SomeD)
  with assms(2) have "okValue rnd v" by auto
  then show ?thesis using Some okValue_orZero[of rnd v] by simp
qed

lemma addToMap_ok:
  assumes f: "faithfulRounding rnd" and m: "\<forall>e\<in>set m. okValue rnd (snd e)"
    and a: "numLe (Fin 0) a"
  shows "\<forall>e\<in>set (addToMap rnd m k a). okValue rnd (snd e)"
proof -
  have "okValue rnd (num_add rnd (orZero (map_of m k)) a)"
    using okValue_add[OF f okValue_lookup[OF f m] a] by simp
  then show ?thesis
    using m set_map_set[of m k "num_add rnd (orZero (map_of m k)) a"]
    unfolding addToMap_def by auto
qed

lemma addToMap_mono:
  assumes f: "faithfulRounding rnd" and m: "\<forall>e\<in>set m. okValue rnd (snd e)"
    and a: "numLe (Fin 0) a"
  shows "numLe (bucketValue m k') (bucketValue (addToMap rnd m k a) k')"
proof (cases "k' = k")
  case True
  let ?s = "orZero (map_of m k)"
  from okValue_add[OF f okValue_lookup[OF f m] a]
  have ok: "okValue rnd (num_add rnd ?s a)" and le: "numLe ?s (num_add rnd ?s a)" by auto
  show ?thesis
    using True le okValue_orZero[OF ok]
    by (simp add: bucketValue_def addToMap_def map_of_map_set)
next
  case False
  have "okValue rnd (orZero (map_of m k'))" by (rule okValue_lookup[OF f m])
  then have "numLe (orZero (map_of m k')) (orZero (map_of m k'))"
    by (auto simp: okValue_def intro: numLe_refl dest: numLe_zero_not_NaN)
  then show ?thesis
    using False by (simp add: bucketValue_def addToMap_def map_of_map_set)
qed

lemma okValue_week_lookup:
  assumes "faithfulRounding rnd" and "\<forall>e\<in>set m. okValue rnd (fst (snd e))"
  shows "okValue rnd (orZero (map_option fst (map_of m k)))"
proof (cases "map_of m k")
  case None
  then show ?thesis using assms(1) by (simp add: okValue_zero)
next
  case (Some v)
  then have "(k, v) \<in> set m" by (rule map_of_SomeD)
  with assms(2) have "okValue rnd (fst v)" by force
  then show ?thesis using Some okValue_orZero[of rnd "fst v"] by simp
qed

lemma addToWeekly_eq:
  assumes "\<forall>e\<in>set m. okValue rnd (fst (snd e))"
  shows "\<exists>sd. addToWeekly rnd m k ws a
    = map_set m k (num_add rnd (orZero (map_option fst (map_of m k))) a, sd)"
proof (cases "map_of m k")
  case None
  then show ?thesis by (auto simp: addToWeekly_def)
next
  case (Some v)
  then have "(k, v) \<in> set m" by (rule map_of_SomeD)
  with assms have "okValue rnd (fst v)" by force
  then show ?thesis
    using Some okValue_orZero[of rnd "fst v"]
    by (cases v) (auto simp: addToWeekly_def)
qed

lemma addToWeekly_ok:
  assumes f: "faithfulRounding rnd" and m: "\<forall>e\<in>set m. okValue rnd (fst (snd e))"
    and a: "numLe (Fin 0) a"
  shows "\<forall>e\<in>set (addToWeekly rnd m k ws a). okValue rnd (fst (snd e))"
proof -
  let ?v = "num_add rnd (orZero (map_option fst (map_of m k))) a"
  from addToWeekly_eq[OF m] obtain sd where
    eq: "addToWeekly rnd m k ws a = map_set m k (?v, sd)" by blast
  have "okValue rnd ?v"
    using okValue_add[OF f okValue_week_lookup[OF f m] a] by simp
  then show ?thesis
    using m set_map_set[of m k "(?v, sd)"] unfolding eq by auto
qed

lemma addToWeekly_mono:
  assumes f: "faithfulRounding rnd" and m: "\<forall>e\<in>set m. okValue rnd (fst (snd e))"
    and a: "numLe (Fin 0) a"
  shows "numLe (weekValue m k') (weekValue (addToWeekly rnd m k ws a) k')"
proof -
  let ?s = "orZero (map_option fst (map_of m k))"
  from addToWeekly_eq[OF m] obtain sd where
    eq: "addToWeekly rnd m k ws a = map_set m k (num_add rnd ?s a, sd)" by blast
  show ?thesis
  proof (cases "k' = k")
    case True
    from okValue_add[OF f okValue_week_lookup[OF f m] a]
    have ok: "okValue rnd (num_add rnd ?s a)" and le: "numLe ?s (num_add rnd ?s a)" by auto
    show ?thesis
      using True le okValue_orZero[OF ok]
      by (simp add: weekValue_def eq map_of_map_set)
  next
    case False
    have "okValue rnd (orZero (map_option fst (map_of m k')))"
      by (rule okValue_week_lookup[OF f m])
    then have "numLe (weekValue m k') (weekValue m k')"
      by (auto simp: weekValue_def okValue_def intro: numLe_refl dest: numLe_zero_not_NaN)
    then show ?thesis
      using False by (simp add: weekValue_def eq map_of_map_set)
  qed
qed


lemma bucketsInv_step:
  assumes f: "faithfulRounding (roundNumber h)" and inv: "bucketsInv (roundNumber h) st"
    and p: "processRow h cols st row = Inr st'"
  shows "bucketsInv (roundNumber h) st'
    \<and> (\<forall>key. numLe (bucketValue (monthlyMap st) key) (bucketValue (monthlyMap st') key)
          \<and> numLe (bucketValue (dailyMap st) key) (bucketValue (dailyMap st') key)
          \<and> numLe (weekValue (weeklyMap st) key) (weekValue (weeklyMap st') key))"
proof -
  let ?rnd = "roundNumber h"
  from inv have m: "\<forall>e\<in>set (monthlyMap st). okValue ?rnd (snd e)"
    and d: "\<forall>e\<in>set (dailyMap st). okValue ?rnd (snd e)"
    and w: "\<forall>e\<in>set (weeklyMap st). okValue ?rnd (fst (snd e))"
    by (auto simp: bucketsInv_def)
  from processRow_Inr[OF p] show ?thesis
  proof
    assume same: "st' = st"
    have "numLe (bucketValue (monthlyMap st) key) (bucketValue (monthlyMap st) key)"
      "numLe (bucketValue (dailyMap st) key) (bucketValue (dailyMap st) key)"
      "numLe (weekValue (weeklyMap st) key) (weekValue (weeklyMap st) key)" for key
      using okValue_lookup[OF f m, of key] okValue_lookup[OF f d, of key]
        okValue_week_lookup[OF f w, of key]
      by (auto simp: bucketValue_def weekValue_def okValue_def
          intro!: numLe_refl dest: numLe_zero_not_NaN)
    with inv same show ?thesis by simp
  next
    assume "\<exists>t txn. normalizeRow h cols row = Some (t, txn) \<and> aggregate h st t txn = Inr st'"
    then obtain t txn where n: "normalizeRow h cols row = Some (t, txn)"
      and a: "aggregate h st t txn = Inr st'" by blast
    have nn: "numLe (Fin 0) (amount txn)" by (rule normalizeRow_nonneg[OF n])
    from aggregate_Inr(5)[OF a] obtain ws where
      wk: "weeklyMap st' = addToWeekly ?rnd (weeklyMap st) (splitT0 (isoString ws)) (Some ws)
             (amount txn)" by blast
    have "bucketsInv ?rnd st'"
      unfolding bucketsInv_def aggregate_Inr(3,4)[OF a] wk
      using addToMap_ok[OF f m nn] addToMap_ok[OF f d nn] addToWeekly_ok[OF f w nn] by blast
    moreover have "numLe (bucketValue (monthlyMap st) key) (bucketValue (monthlyMap st') key)"
      "numLe (bucketValue (dailyMap st) key) (bucketValue (dailyMap st') key)"
      "numLe (weekValue (weeklyMap st) key) (weekValue (weeklyMap st') key)" for key
      unfolding aggregate_Inr(3,4)[OF a] wk
      using addToMap_mono[OF f m nn] addToMap_mono[OF f d nn] addToWeekly_mono[OF f w nn]
      by blast+
    ultimately show ?thesis by blast
  qed
qed

lemma bucketsInv_initial: "bucketsInv rnd initialState"
  by (simp add: bucketsInv_def initialState_def)

lemma bucketsInv_loop:
  assumes "faithfulRounding (roundNumber h)" and "rowLoop h cols rows initialState = Inr st"
  shows "bucketsInv (roundNumber h) st"
proof -
  have step: "\<And>st row st'. bucketsInv (roundNumber h) st \<Longrightarrow>
      processRow h cols st row = Inr st' \<Longrightarrow> bucketsInv (roundNumber h) st'"
    using bucketsInv_step[OF assms(1)] by blast
  from rowLoop_invariant[where P = "bucketsInv (roundNumber h)", OF step bucketsInv_initial assms(2)]
  show ?thesis .
qed

lemma set_insertBy: "set (insertBy le x ys) = insert x (set ys)"
  by (induction ys) auto

lemma set_sortBy: "set (sortBy le xs) = set xs"
  unfolding sortBy_def by (induction xs) (auto simp: set_insertBy)

lemma assemble_buckets_nonneg:
  assumes "bucketsInv (roundNumber h) st"
  shows "\<forall>b\<in>set (monthlySpending (assemble h st)) \<union> set (dailySpending (assemble h st))
            \<union> set (weeklySpending (assemble h st)). numLe (Fin 0) (spending b)"
  using assms
  by (auto simp: assemble_def monthlyOf_def dailyOf_def weeklyOf_def set_sortBy bucketsInv_def
      okValue_def dailyEntry_def weeklyEntry_def Let_def)


text \<open>
  C8. Every transaction of a result has an amount of at least 0, whatever the sign
  or the format of the amount field; the statement with the amounts \<open>-42.50\<close>
  and \<open>$42.50\<close> gives 42.50 for both (\<open>run_three_rows\<close>). With a rounding that
  is faithful, every bucket of the result has a sum of at least 0, and in every run
  of the loop each step leaves every running sum of the three maps at least 0 and
  at least what it was before the step.
\<close>

theorem amounts_and_buckets_never_negative:
  "(parseCSV h csv = Inr r \<longrightarrow> (\<forall>t\<in>set (transactions r). numLe (Fin 0) (amount t)))
   \<and> (faithfulRounding (roundNumber h) \<longrightarrow>
        (parseCSV h csv = Inr r \<longrightarrow>
           (\<forall>b\<in>set (monthlySpending r) \<union> set (dailySpending r) \<union> set (weeklySpending r).
               numLe (Fin 0) (spending b)))
        \<and> (rowLoop h cols rows initialState = Inr st \<and> processRow h cols st row = Inr st' \<longrightarrow>
             (\<forall>key. numLe (Fin 0) (bucketValue (monthlyMap st') key)
                  \<and> numLe (bucketValue (monthlyMap st) key) (bucketValue (monthlyMap st') key)
                  \<and> numLe (Fin 0) (bucketValue (dailyMap st') key)
                  \<and> numLe (bucketValue (dailyMap st) key) (bucketValue (dailyMap st') key)
                  \<and> numLe (Fin 0) (weekValue (weeklyMap st') key)
                  \<and> numLe (weekValue (weeklyMap st) key) (weekValue (weeklyMap st') key))))"
proof (intro conjI impI)
  assume run: "parseCSV h csv = Inr r"
  then have "parseLines h (splitLines csv) = Inr r" by (simp add: parseCSV_def)
  from parseLines_Inr[OF this] show "\<forall>t\<in>set (transactions r). numLe (Fin 0) (amount t)"
  proof
    assume "r = emptyResult"
    then show ?thesis by (simp add: emptyResult_def)
  next
    assume "\<exists>st. rowLoop h (resolveColumns (parseCSVLine (hd (splitLines csv))))
               (tl (splitLines csv)) initialState = Inr st \<and> r = assemble h st"
    then obtain st0 where
      loop: "rowLoop h (resolveColumns (parseCSVLine (hd (splitLines csv))))
               (tl (splitLines csv)) initialState = Inr st0"
      and r: "r = assemble h st0" by blast
    have "amountsInv initialState" by (simp add: amountsInv_def initialState_def)
    from rowLoop_invariant[where P = amountsInv, OF amountsInv_step this loop]
    show ?thesis by (simp add: r assemble_def amountsInv_def)
  qed
next
  assume f: "faithfulRounding (roundNumber h)" and run: "parseCSV h csv = Inr r"
  then have "parseLines h (splitLines csv) = Inr r" by (simp add: parseCSV_def)
  from parseLines_Inr[OF this]
  show "\<forall>b\<in>set (monthlySpending r) \<union> set (dailySpending r) \<union> set (weeklySpending r).
          numLe (Fin 0) (spending b)"
  proof
    assume "r = emptyResult"
    then show ?thesis by (simp add: emptyResult_def)
  next
    assume "\<exists>st. rowLoop h (resolveColumns (parseCSVLine (hd (splitLines csv))))
               (tl (splitLines csv)) initialState = Inr st \<and> r = assemble h st"
    then obtain st0 where
      loop: "rowLoop h (resolveColumns (parseCSVLine (hd (splitLines csv))))
               (tl (splitLines csv)) initialState = Inr st0"
      and r: "r = assemble h st0" by blast
    from assemble_buckets_nonneg[OF bucketsInv_loop[OF f loop]] show ?thesis
      unfolding r .
  qed
next
  assume f: "faithfulRounding (roundNumber h)"
    and "rowLoop h cols rows initialState = Inr st \<and> processRow h cols st row = Inr st'"
  then have loop: "rowLoop h cols rows initialState = Inr st"
    and p: "processRow h cols st row = Inr st'" by auto
  from bucketsInv_step[OF f bucketsInv_loop[OF f loop] p]
  have inv': "bucketsInv (roundNumber h) st'"
    and mono: "\<And>key. numLe (bucketValue (monthlyMap st) key) (bucketValue (monthlyMap st') key)
          \<and> numLe (bucketValue (dailyMap st) key) (bucketValue (dailyMap st') key)
          \<and> numLe (weekValue (weeklyMap st) key) (weekValue (weeklyMap st') key)"
    by auto
  from inv' have m: "\<forall>e\<in>set (monthlyMap st'). okValue (roundNumber h) (snd e)"
    and d: "\<forall>e\<in>set (dailyMap st'). okValue (roundNumber h) (snd e)"
    and w: "\<forall>e\<in>set (weeklyMap st'). okValue (roundNumber h) (fst (snd e))"
    by (auto simp: bucketsInv_def)
  have "numLe (Fin 0) (bucketValue (monthlyMap st') key)"
    "numLe (Fin 0) (bucketValue (dailyMap st') key)"
    "numLe (Fin 0) (weekValue (weeklyMap st') key)" for key
    using okValue_lookup[OF f m, of key] okValue_lookup[OF f d, of key]
      okValue_week_lookup[OF f w, of key]
    by (auto simp: bucketValue_def weekValue_def okValue_def)
  with mono
  show "\<forall>key. numLe (Fin 0) (bucketValue (monthlyMap st') key)
                  \<and> numLe (bucketValue (monthlyMap st) key) (bucketValue (monthlyMap st') key)
                  \<and> numLe (Fin 0) (bucketValue (dailyMap st') key)
                  \<and> numLe (bucketValue (dailyMap st) key) (bucketValue (dailyMap st') key)
                  \<and> numLe (Fin 0) (weekValue (weeklyMap st') key)
                  \<and> numLe (weekValue (weeklyMap st) key) (weekValue (weeklyMap st') key)"
    by blast
qed

lemma faithfulRounding_Fin: "faithfulRounding Fin"
  by (simp add: faithfulRounding_def)

lemma first_row_step:
  "processRow utcHost \<lparr> dateColIndex = 0, amountColIndex = 2, descColIndex = 1,
        actualTypeColIndex = - 1 \<rparr> initialState ''2024-01-05,Coffee,-42.50''
   = Inr \<lparr> transactionsVar =
             [\<lparr> date = ''2024-01-05'', description = ''Coffee'', amount = Fin (85 / 2) \<rparr>],
           monthlyMap = [(''January 2024'', Fin (85 / 2))],
           dailyMap = [(''2024-01-05'', Fin (85 / 2))],
           weeklyMap = [(''2024-01-01'', Fin (85 / 2), Some 1704067200000)],
           totalSpendingVar = Fin (85 / 2) \<rparr>"
  by code_simp

theorem amounts_and_buckets_never_negative_witness:
  "faithfulRounding (roundNumber utcHost)
   \<and> numLe (Fin 0) (amount \<lparr> date = ''2024-01-05'', description = ''Coffee'', amount = Fin (85 / 2) \<rparr>)
   \<and> numLe (Fin 0) (amount \<lparr> date = ''2024-01-06'', description = ''Tea'', amount = Fin (85 / 2) \<rparr>)
   \<and> numLe (Fin 0) (spending \<lparr> name = ''January 2024'', spending = Fin (681 / 8) \<rparr>)
   \<and> numLe (bucketValue (monthlyMap initialState) ''January 2024'')
        (bucketValue [(''January 2024'', Fin (85 / 2))] ''January 2024'')"
proof -
  have f: "faithfulRounding (roundNumber utcHost)"
    by (simp add: utcHost_def faithfulRounding_Fin)
  have l: "rowLoop utcHost \<lparr> dateColIndex = 0, amountColIndex = 2, descColIndex = 1,
        actualTypeColIndex = - 1 \<rparr> [] initialState = Inr initialState"
    by simp
  from amounts_and_buckets_never_negative[of utcHost _ _
      "\<lparr> dateColIndex = 0, amountColIndex = 2, descColIndex = 1, actualTypeColIndex = - 1 \<rparr>"
      "[]" initialState "''2024-01-05,Coffee,-42.50''"]
    f run_three_rows l first_row_step
  show ?thesis by (simp add: bucketValue_def initialState_def)
qed

section \<open>The debit filter\<close>










section \<open>The clock\<close>

lemma newDate_now [simp]: "newDate (h\<lparr> now := t \<rparr>) s = newDate h s"
  by (simp add: newDate_def split: option.splits)

lemma getWeekStart_now [simp]: "getWeekStart (h\<lparr> now := t \<rparr>) d = getWeekStart h d"
  by (simp add: getWeekStart_def getDay_def getDate_def setDate_def LocalTime_def UTC_def Let_def
      cong: option.case_cong)

lemma aggregate_now [simp]: "aggregate (h\<lparr> now := t \<rparr>) st u txn = aggregate h st u txn"
  by (simp add: aggregate_def toLocaleMonthYear_def LocalTime_def Let_def cong: sum.case_cong)

lemma dailyEntry_now [simp]: "dailyEntry (h\<lparr> now := t \<rparr>) = dailyEntry h"
  by (rule ext) (simp add: dailyEntry_def)

lemma weeklyEntry_now [simp]: "weeklyEntry (h\<lparr> now := t \<rparr>) = weeklyEntry h"
  by (rule ext)
    (simp add: weeklyEntry_def setDate_def getDate_def toLocaleMonthDay_def LocalTime_def
      UTC_def Let_def cong: option.case_cong)

lemma assemble_now [simp]: "assemble (h\<lparr> now := t \<rparr>) st = assemble h st"
  by (simp add: assemble_def monthlyOf_def dailyOf_def weeklyOf_def)

lemma normalizeRow_now:
  assumes "\<forall>ds desc amt. rowChecks (roundNumber h) cols row = Some (ds, desc, amt) \<longrightarrow> ds \<noteq> []"
  shows "normalizeRow (h\<lparr> now := t \<rparr>) cols row = normalizeRow h cols row"
proof (cases "rowChecks (roundNumber h) cols row")
  case None
  then show ?thesis by (simp add: normalizeRow_def)
next
  case (Some p)
  obtain ds desc amt where p: "p = (ds, desc, amt)" by (cases p)
  with assms Some have "ds \<noteq> []" by simp
  then show ?thesis using Some p by (simp add: normalizeRow_def rowDate_def)
qed

lemma rowLoop_now:
  assumes "\<forall>row\<in>set rows. \<forall>ds desc amt.
      rowChecks (roundNumber h) cols row = Some (ds, desc, amt) \<longrightarrow> ds \<noteq> []"
  shows "rowLoop (h\<lparr> now := t \<rparr>) cols rows st = rowLoop h cols rows st"
  using assms
proof (induction rows arbitrary: st)
  case Nil
  then show ?case by simp
next
  case (Cons row rows)
  then have "normalizeRow (h\<lparr> now := t \<rparr>) cols row = normalizeRow h cols row"
    by (intro normalizeRow_now) simp
  then have "processRow (h\<lparr> now := t \<rparr>) cols st row = processRow h cols st row"
    by (simp add: processRow_def split: option.splits)
  with Cons show ?case by (simp split: sum.splits)
qed

lemma parseLines_now:
  assumes "\<forall>row\<in>set (tl ls). \<forall>ds desc amt.
      rowChecks (roundNumber h) (resolveColumns (parseCSVLine (hd ls))) row = Some (ds, desc, amt)
        \<longrightarrow> ds \<noteq> []"
  shows "parseLines (h\<lparr> now := t \<rparr>) ls = parseLines h ls"
  using rowLoop_now[OF assms] by (simp add: parseLines_def Let_def cong: sum.case_cong)

text \<open>
  C10. When every row that passes the field-count, amount and type checks has a date
  field that is not empty, \<open>parseCSV\<close> does not depend on the clock: run at two
  different times it gives the same outcome.
\<close>

theorem deterministic_when_dates_present:
  assumes "\<forall>row\<in>set (tl (splitLines csv)). \<forall>dateStr desc spendingAmount.
      rowChecks (roundNumber h) (resolveColumns (parseCSVLine (hd (splitLines csv)))) row
        = Some (dateStr, desc, spendingAmount) \<longrightarrow> dateStr \<noteq> []"
  shows "parseCSV (h\<lparr> now := t1 \<rparr>) csv = parseCSV (h\<lparr> now := t2 \<rparr>) csv"
  using parseLines_now[OF assms, of t1] parseLines_now[OF assms, of t2]
  by (simp add: parseCSV_def)

theorem deterministic_when_dates_present_witness:
  "parseCSV (utcHost\<lparr> now := 0 \<rparr>) (''Date,Amount'' @ [CHR 0x0A] @ ''2024-01-05,0.125'')
   = parseCSV (utcHost\<lparr> now := 1700000000000 \<rparr>)
       (''Date,Amount'' @ [CHR 0x0A] @ ''2024-01-05,0.125'')"
proof -
  have l: "splitLines (''Date,Amount'' @ [CHR 0x0A] @ ''2024-01-05,0.125'')
           = [''Date,Amount'', ''2024-01-05,0.125'']"
    by code_simp
  have c: "rowChecks (roundNumber utcHost) (resolveColumns (parseCSVLine ''Date,Amount''))
             ''2024-01-05,0.125'' = Some (''2024-01-05'', [], Fin (1 / 8))"
    by code_simp
  have "\<forall>row\<in>set (tl (splitLines (''Date,Amount'' @ [CHR 0x0A] @ ''2024-01-05,0.125''))).
      \<forall>dateStr desc spendingAmount.
        rowChecks (roundNumber utcHost)
          (resolveColumns (parseCSVLine
             (hd (splitLines (''Date,Amount'' @ [CHR 0x0A] @ ''2024-01-05,0.125''))))) row
        = Some (dateStr, desc, spendingAmount) \<longrightarrow> dateStr \<noteq> []"
    unfolding l using c by auto
  from deterministic_when_dates_present[OF this] show ?thesis .
qed

text \<open>With an empty date field the result does depend on the clock.\<close>

lemma empty_date_uses_the_clock:
  "map_sum id transactions
     (parseCSV (utcHost\<lparr> now := 0 \<rparr>) (''Date,Amount'' @ [CHR 0x0A] @ '',5''))
     = Inr [\<lparr> date = ''1970-01-01'', description = [], amount = Fin 5 \<rparr>]
   \<and> map_sum id transactions
     (parseCSV (utcHost\<lparr> now := 1700000000000 \<rparr>) (''Date,Amount'' @ [CHR 0x0A] @ '',5''))
     = Inr [\<lparr> date = ''2023-11-14'', description = [], amount = Fin 5 \<rparr>]"
  by code_simp

section \<open>The three bucketings\<close>


























end
